theory Spec2Isabelle
  imports Complex_Main "HOL-Library.Multiset"
begin

unbundle bit_operations_syntax

section \<open>Redrock: refinement of chi-squared minima (fitz.py) and Spectrum construction\<close>

text \<open>
  The arrays of the program hold float64 values; they are modelled as lists of real
  numbers, so rounding and overflow are outside the model. The one operation of the program
  that makes a non-finite value out of finite ones, the division in \<^verbatim>\<open>get_dv\<close>, returns a
  value of the type \<open>float64\<close> below. Python exceptions are values of the type
  \<open>error\<close>, and a function that can raise returns \<open>error + 'a\<close>.
\<close>

datatype error = AssertionError | IndexError | ValueError | TypeError | LinAlgError

subsection \<open>NumPy primitives used by the program\<close>

text \<open>\<^verbatim>\<open>np.where(mask)[0]\<close>: the indices at which a boolean array is true, ascending.\<close>

definition np_where :: "bool list \<Rightarrow> nat list" where
  "np_where m = filter (\<lambda>i. m ! i) [0..<length m]"

text \<open>\<^verbatim>\<open>a[ii]\<close> with an integer index array: IndexError when an index is out of bounds.\<close>

definition take_idx :: "'a list \<Rightarrow> nat list \<Rightarrow> error + 'a list" where
  "take_idx a ii = (if \<forall>i \<in> set ii. i < length a then Inr (map (\<lambda>i. a ! i) ii) else Inl IndexError)"

text \<open>\<^verbatim>\<open>np.argmin(v)\<close>: the first index of the least value; ValueError on an empty array.\<close>

fun argmin_from :: "real list \<Rightarrow> nat \<Rightarrow> nat \<Rightarrow> real \<Rightarrow> nat" where
  "argmin_from [] k best bv = best"
| "argmin_from (y # ys) k best bv =
     (if y < bv then argmin_from ys (Suc k) k y else argmin_from ys (Suc k) best bv)"

definition argmin :: "real list \<Rightarrow> error + nat" where
  "argmin v = (case v of [] \<Rightarrow> Inl ValueError | y # ys \<Rightarrow> Inr (argmin_from ys 1 0 y))"

text \<open>\<^verbatim>\<open>np.linspace(a, b, n)\<close> for \<open>n \<ge> 2\<close>: \<open>n\<close> evenly spaced samples from \<open>a\<close> to \<open>b\<close>.\<close>

definition linspace :: "real \<Rightarrow> real \<Rightarrow> nat \<Rightarrow> real list" where
  "linspace a b n = map (\<lambda>k. a + real k * ((b - a) / real (n - 1))) [0..<n]"

text \<open>
  The result of a float64 division of two finite numbers. NumPy raises nothing on a zero
  divisor (the divisor of \<^verbatim>\<open>get_dv\<close> is an array): the quotient is an infinity with the
  sign of the dividend, or NaN when the dividend is zero as well. The divisor of the program
  is \<open>1.0 + zref\<close>, which is the positive zero when it is zero.
\<close>

datatype float64 = Finite real | PosInf | NegInf | NaN

definition fdiv :: "real \<Rightarrow> real \<Rightarrow> float64" where
  "fdiv x y =
     (if y \<noteq> 0 then Finite (x / y)
      else if 0 < x then PosInf else if x < 0 then NegInf else NaN)"

text \<open>\<^verbatim>\<open>np.abs\<close>, and the comparisons \<open><\<close> and \<open>>=\<close> with a finite number: both are false of NaN.\<close>

fun fabs :: "float64 \<Rightarrow> float64" where
  "fabs (Finite r) = Finite \<bar>r\<bar>"
| "fabs PosInf = PosInf"
| "fabs NegInf = PosInf"
| "fabs NaN = NaN"

fun flt :: "float64 \<Rightarrow> real \<Rightarrow> bool" where
  "flt (Finite r) m = (r < m)"
| "flt PosInf m = False"
| "flt NegInf m = True"
| "flt NaN m = False"

fun fge :: "float64 \<Rightarrow> real \<Rightarrow> bool" where
  "fge (Finite r) m = (m \<le> r)"
| "fge PosInf m = True"
| "fge NegInf m = False"
| "fge NaN m = False"

text \<open>
  \<^verbatim>\<open>np.argsort(v)\<close> returns a permutation of the indices of \<open>v\<close> that puts the values
  in non-decreasing order: \<open>sorts v p\<close>. Its default kind is not stable, and which of
  several such permutations it returns depends on the sorting code of the NumPy build; so
  the routine is a parameter of the model, of a type that holds exactly the functions with
  this contract. (The arrays sorted by the program hold no NaN here.)
\<close>

definition sorts :: "real list \<Rightarrow> nat list \<Rightarrow> bool" where
  "sorts v p \<longleftrightarrow> sort p = [0..<length v] \<and> sorted (map (\<lambda>i. v ! i) p)"

typedef sorter = "{f :: real list \<Rightarrow> nat list. \<forall>v. sorts v (f v)}"
  morphisms run_sorter Abs_sorter
proof
  show "(\<lambda>v. sort_key (\<lambda>i. v ! i) [0..<length v]) \<in> {f. \<forall>v. sorts v (f v)}"
    by (simp add: sorts_def properties_for_sort)
qed

subsection \<open>Collaborators taken as parameters\<close>

text \<open>
  The modules \<^verbatim>\<open>constants\<close>, \<^verbatim>\<open>zwarning\<close>, \<^verbatim>\<open>zscan\<close>, \<^verbatim>\<open>rebin\<close> and \<^verbatim>\<open>utils\<close>
  are imported by the program and are not part of the sources at hand, and \<^verbatim>\<open>np.polyfit\<close>
  and \<^verbatim>\<open>np.argsort\<close> are library routines. They are fields of one record, and every
  theorem holds for each of its values:
  \<^item> \<open>polyfit x y\<close> is \<^verbatim>\<open>np.polyfit(x, y, 2)\<close>, the coefficients \<open>(a, b, c)\<close> of
    \<open>a x\<^sup>2 + b x + c\<close> as the routine returns them, or the exception raised;
  \<^item> \<open>np_argsort\<close> is \<^verbatim>\<open>np.argsort\<close>;
  \<^item> \<open>spectral_data\<close> is \<^verbatim>\<open>zscan.spectral_data\<close> (only whether it raises matters here);
  \<^item> \<open>zchi2_at z\<close> is the chi-squared and the coefficients of the template at redshift
    \<open>z\<close>: \<^verbatim>\<open>rebin_template\<close>, the \<^verbatim>\<open>transmission_Lyman\<close> correction and
    \<^verbatim>\<open>calc_zchi2_batch\<close> for the spectra and the template of the call, or the exception
    raised;
  \<^item> \<open>BAD_MINFIT\<close> and \<open>Z_FITLIMIT\<close> are the bit masks of \<^verbatim>\<open>ZWarningMask\<close>;
  \<^item> \<open>max_velo_diff\<close> and \<open>min_resolution_integral\<close> are the constants of that name.
\<close>

record env =
  polyfit :: "real list \<Rightarrow> real list \<Rightarrow> error + (real \<times> real \<times> real)"
  np_argsort :: sorter
  spectral_data :: "error + unit"
  zchi2_at :: "real \<Rightarrow> error + (real \<times> real list)"
  BAD_MINFIT :: nat
  Z_FITLIMIT :: nat
  max_velo_diff :: real
  min_resolution_integral :: real

definition argsort :: "env \<Rightarrow> real list \<Rightarrow> nat list" where
  "argsort E v = run_sorter (np_argsort E) v"

subsection \<open>fitz.py: get_dv and find_minima\<close>

definition speed_of_light :: real where
  "speed_of_light = 299792458"

text \<open>
  \<^verbatim>\<open>get_dv(z, zref)\<close> is \<open>c * (z - zref) / (1.0 + zref)\<close> with \<open>c\<close> in km/s, for one
  entry \<open>zref\<close> of the array of reference redshifts.
\<close>

definition get_dv :: "real \<Rightarrow> real \<Rightarrow> float64" where
  "get_dv z zref =
     (let c = speed_of_light / 1000
      in fdiv (c * (z - zref)) (1 + zref))"

definition find_minima :: "env \<Rightarrow> real list \<Rightarrow> error + nat list" where
  "find_minima E x =
     (let ii = np_where (map2 (\<and>) (True # map2 (\<le>) (tl x) (butlast x))
                                   (map2 (\<le>) (butlast x) (tl x) @ [True]))
      in case take_idx x ii of
           Inl e \<Rightarrow> Inl e
         | Inr xii \<Rightarrow> take_idx ii (argsort E xii))"

text \<open>
  The spec's words for a local minimum: a value less than or equal to both neighbours,
  a missing outer neighbour counting as satisfied.
\<close>

definition local_min :: "real list \<Rightarrow> nat \<Rightarrow> bool" where
  "local_min x k \<longleftrightarrow>
     (k = 0 \<or> x ! k \<le> x ! (k - 1)) \<and> (Suc k = length x \<or> x ! k \<le> x ! Suc k)"

subsection \<open>fitz.py: minfit\<close>

definition minfit :: "env \<Rightarrow> real list \<Rightarrow> real list \<Rightarrow> error + (real \<times> real \<times> real \<times> nat)" where
  "minfit E x y =
     (if length x < 3 then Inr (- 1, - 1, - 1, BAD_MINFIT E)
      else case polyfit E x y of
        Inl e \<Rightarrow> (if e = LinAlgError then Inr (- 1, - 1, - 1, BAD_MINFIT E) else Inl e)
      | Inr (a, b, c) \<Rightarrow>
          if a = 0 then Inr (- 1, - 1, - 1, BAD_MINFIT E)
          else
            let x0 = - b / (2 * a);
                y0 = - (b ^ 2) / (4 * a) + c;
                zwarn = 0;
                zwarn = (if x0 \<le> Min (set x) \<or> Max (set x) \<le> x0
                         then zwarn OR BAD_MINFIT E else zwarn);
                zwarn = (if y0 \<le> 0 then zwarn OR BAD_MINFIT E else zwarn)
            in if a > 0 then Inr (x0, 1 / sqrt a, y0, zwarn)
               else Inr (x0, 1 / sqrt (- a), y0, zwarn OR BAD_MINFIT E))"

subsection \<open>targets.py: Spectrum\<close>

text \<open>
  The constructor writes into an array that the caller still holds, so arrays live in a
  store and a Spectrum keeps the addresses it was given. \<open>R\<close> is the resolution matrix:
  its rows (\<^verbatim>\<open>R.sum(axis=1)\<close> adds each of them up) and the number of stored diagonals
  (\<^verbatim>\<open>R.data.shape[0]\<close>). The hash of the tuple is modelled by the tuple.
\<close>

type_synonym addr = nat
type_synonym store = "addr \<Rightarrow> real list"

record resolution =
  R_rows :: "real list list"
  R_ndiag :: nat

record spectrum =
  sp_nwave :: nat
  sp_wave :: addr
  sp_flux :: addr
  sp_ivar :: addr
  sp_R :: "resolution option"
  sp_Rcsr :: "resolution option"
  sp_mpshared :: bool
  sp_wavehash :: "nat \<times> real \<times> real \<times> real \<times> real \<times> nat option"

text \<open>
  \<^verbatim>\<open>ivar[w] = 0.\<close> with a boolean mask \<open>w\<close>: IndexError when the mask and the array
  differ in length, otherwise zero wherever the mask is true.
\<close>

definition mask_assign_zero :: "bool list \<Rightarrow> real list \<Rightarrow> error + real list" where
  "mask_assign_zero w a =
     (if length w \<noteq> length a then Inl IndexError
      else Inr (map2 (\<lambda>m v. if m then 0 else v) w a))"

definition Spectrum_init ::
  "env \<Rightarrow> store \<Rightarrow> addr \<Rightarrow> addr \<Rightarrow> addr \<Rightarrow> resolution option \<Rightarrow> resolution option
     \<Rightarrow> store \<times> (error + spectrum)" where
  "Spectrum_init E h wave flux ivar R Rcsr =
     (case (case R of
              None \<Rightarrow> Inr h
            | Some r \<Rightarrow>
                let w = map (\<lambda>row. sum_list row < min_resolution_integral E) (R_rows r)
                in (case mask_assign_zero w (h ivar) of
                      Inl e \<Rightarrow> Inl e
                    | Inr a \<Rightarrow> Inr (h(ivar := a)))) of
        Inl e \<Rightarrow> (h, Inl e)
      | Inr h' \<Rightarrow>
          let wv = h' wave; n = length wv
          in if n < 2 then (h', Inl IndexError)
             else (h', Inr \<lparr> sp_nwave = n, sp_wave = wave, sp_flux = flux, sp_ivar = ivar,
                             sp_R = R, sp_Rcsr = Rcsr, sp_mpshared = False,
                             sp_wavehash = (n, wv ! 0, wv ! 1, wv ! (n - 2), wv ! (n - 1),
                                            map_option R_ndiag R) \<rparr>))"

subsection \<open>archetypes.py: Archetype.get_best_archetype\<close>

text \<open>
  The evaluation of a batch: one chi-squared and one row of coefficients for each entry,
  or the first exception raised.
\<close>

fun calc_batch :: "('a \<Rightarrow> error + (real \<times> real list)) \<Rightarrow> 'a list
    \<Rightarrow> error + (real list \<times> real list list)" where
  "calc_batch f [] = Inr ([], [])"
| "calc_batch f (z # zs) =
     (case f z of
        Inl e \<Rightarrow> Inl e
      | Inr (c, co) \<Rightarrow>
          (case calc_batch f zs of
             Inl e \<Rightarrow> Inl e
           | Inr (cs, cfs) \<Rightarrow> Inr (c # cs, co # cfs)))"

text \<open>
  An archetype set holds \<open>narch\<close> flux curves with their subtype labels.
  \<open>arch_zchi2 i z\<close> is what the loop body computes for archetype \<open>i\<close> at redshift
  \<open>z\<close> (\<^verbatim>\<open>trapz_rebin\<close> and \<^verbatim>\<open>_zchi2_one\<close>, neither among the sources at hand): the
  chi-squared and the coefficients.
\<close>

record archetype =
  narch :: nat
  subtype :: "string list"
  arch_zchi2 :: "nat \<Rightarrow> real \<Rightarrow> error + (real \<times> real list)"

definition get_best_archetype :: "archetype \<Rightarrow> real \<Rightarrow> error + (real \<times> real list \<times> string)" where
  "get_best_archetype a z =
     (case calc_batch (\<lambda>i. arch_zchi2 a i z) [0..<narch a] of
        Inl e \<Rightarrow> Inl e
      | Inr (zzchi2, zzcoeff) \<Rightarrow>
          (case argmin zzchi2 of
             Inl e \<Rightarrow> Inl e
           | Inr iBest \<Rightarrow>
               if iBest < length (subtype a)
               then Inr (zzchi2 ! iBest, zzcoeff ! iBest, subtype a ! iBest)
               else Inl IndexError))"

text \<open>
  A Python call binds its positional arguments to the parameters of the method, and
  raises TypeError when there are more arguments than parameters. The method is declared
  as \<^verbatim>\<open>get_best_archetype(self, spectra, weights, flux, wflux, dwave, z, legendre)\<close>:
  seven parameters after \<open>self\<close>.
\<close>

definition get_best_archetype_nparams :: nat where
  "get_best_archetype_nparams = 7"

definition call_get_best_archetype :: "nat \<Rightarrow> archetype \<Rightarrow> real
    \<Rightarrow> error + (real \<times> real list \<times> string)" where
  "call_get_best_archetype nargs a z =
     (if nargs = get_best_archetype_nparams then get_best_archetype a z else Inl TypeError)"

subsection \<open>fitz.py: fitz\<close>

record template =
  nbasis :: nat

text \<open>One entry of the list \<open>results\<close>: the dictionary built for an accepted minimum.\<close>

record result =
  res_z :: real
  res_zerr :: real
  res_zwarn :: nat
  res_chi2 :: real
  res_zz :: "real list"
  res_zzchi2 :: "real list"
  res_coeff :: "real list"
  res_fulltype :: "string option"
  res_npixels :: nat

text \<open>The Python slice \<^verbatim>\<open>a[lo:hi]\<close> for \<open>0 \<le> lo \<le> hi\<close>.\<close>

definition slice :: "'a list \<Rightarrow> nat \<Rightarrow> nat \<Rightarrow> 'a list" where
  "slice a lo hi = take (hi - lo) (drop lo a)"

text \<open>
  \<^verbatim>\<open>np.abs(get_dv(z, zprev)) < constants.max_velo_diff\<close> for one entry \<open>zref\<close> of
  \<open>zprev\<close>, the redshifts of the results so far, and \<^verbatim>\<open>np.any\<close> of these.
\<close>

definition closer :: "env \<Rightarrow> real \<Rightarrow> real \<Rightarrow> bool" where
  "closer E z zref = flt (fabs (get_dv z zref)) (max_velo_diff E)"

definition too_close :: "env \<Rightarrow> real \<Rightarrow> result list \<Rightarrow> bool" where
  "too_close E z results = list_ex (closer E z) (map res_z results)"

text \<open>
  The spec's words for two distinct redshifts: the velocity separation of \<open>z\<close> from
  the reference \<open>zref\<close> is at least the minimum separation.
\<close>

definition far :: "env \<Rightarrow> real \<Rightarrow> real \<Rightarrow> bool" where
  "far E z zref = fge (fabs (get_dv z zref)) (max_velo_diff E)"

text \<open>
  The body of the loop between the two velocity tests, for the candidate \<open>imin\<close>, in
  the order of the source. First the fine sampling: \<open>nz = 15\<close> redshifts from one coarse
  step below the candidate to one above, clamped to the scan.
\<close>

definition fine_grid :: "real list \<Rightarrow> real list \<Rightarrow> nat \<Rightarrow> real list" where
  "fine_grid zchi2 redshifts imin =
     (let nz = 15;
          ilo = max 0 (imin - 1);
          ihi = min (imin + 1) (length zchi2 - 1)
      in linspace (redshifts ! ilo) (redshifts ! ihi) nz)"

text \<open>
  The evaluation at the fitted redshift \<open>zmin\<close>, inside \<^verbatim>\<open>try\<close>: the coefficients
  \<^verbatim>\<open>coeff[0,:]\<close> when it returns; when it raises ValueError and \<open>zmin\<close> is outside the
  scan, zero coefficients and both flags; any other exception, and a ValueError with
  \<open>zmin\<close> inside the scan, goes to the caller.
\<close>

definition eval_zmin :: "env \<Rightarrow> real list \<Rightarrow> template \<Rightarrow> real \<Rightarrow> nat \<Rightarrow> error + (real list \<times> nat)" where
  "eval_zmin E redshifts tmpl zmin zwarn =
     (case calc_batch (zchi2_at E) [zmin] of
        Inr (chi2, coeff) \<Rightarrow> Inr (coeff ! 0, zwarn)
      | Inl err \<Rightarrow>
          if err = ValueError
          then (if zmin < redshifts ! 0 \<or> last redshifts < zmin
                then Inr (replicate (nbasis tmpl) 0, (zwarn OR Z_FITLIMIT E) OR BAD_MINFIT E)
                else Inl err)
          else Inl err)"

text \<open>
  The statements after the \<^verbatim>\<open>try\<close>: a fitted redshift outside the fine samples is
  replaced by the least sample, and a redshift within the first or the last step of the
  scan is flagged. \<^verbatim>\<open>redshifts[1]\<close> raises IndexError on a scan of one redshift.
\<close>

definition edge_policy :: "env \<Rightarrow> real list \<Rightarrow> real list \<Rightarrow> real list \<Rightarrow> real \<Rightarrow> real \<Rightarrow> real
    \<Rightarrow> nat \<Rightarrow> real list \<Rightarrow> error + result" where
  "edge_policy E redshifts zz zzchi2 zmin sigma chi2min zwarn coeff =
     (let zbest = zmin;
          zerr = sigma;
          outside = (zbest < zz ! 0 \<or> zbest > last zz);
          imin = hd (np_where (map (\<lambda>v. v = Min (set zzchi2)) zzchi2));
          zwarn = (if outside then zwarn OR BAD_MINFIT E else zwarn);
          zbest = (if outside then zz ! imin else zbest);
          chi2min = (if outside then zzchi2 ! imin else chi2min)
      in if length redshifts < 2 then Inl IndexError
         else
           let zwarn = (if zbest < redshifts ! 1 \<or> zbest > redshifts ! (length redshifts - 2)
                        then zwarn OR Z_FITLIMIT E else zwarn);
               zwarn = (if zmin < redshifts ! 1 \<or> zmin > redshifts ! (length redshifts - 2)
                        then zwarn OR Z_FITLIMIT E else zwarn)
           in Inr \<lparr> res_z = zbest, res_zerr = zerr, res_zwarn = zwarn, res_chi2 = chi2min,
                    res_zz = zz, res_zzchi2 = zzchi2, res_coeff = coeff,
                    res_fulltype = None, res_npixels = 0 \<rparr>)"

definition parabola_fit :: "env \<Rightarrow> real list \<Rightarrow> real list \<Rightarrow> error + (real \<times> real \<times> real \<times> nat)" where
  "parabola_fit E zz zzchi2 =
     (case argmin zzchi2 of
        Inl e \<Rightarrow> Inl e
      | Inr am \<Rightarrow>
          let i = min (max am 1) (length zz - 2)
          in minfit E (slice zz (i - 1) (i + 2)) (slice zzchi2 (i - 1) (i + 2)))"

definition refine :: "env \<Rightarrow> real list \<Rightarrow> real list \<Rightarrow> template \<Rightarrow> nat \<Rightarrow> error + result" where
  "refine E zchi2 redshifts tmpl imin =
     (if length redshifts \<le> min (imin + 1) (length zchi2 - 1) then Inl IndexError
      else
        let zz = fine_grid zchi2 redshifts imin
        in case calc_batch (zchi2_at E) zz of
             Inl e \<Rightarrow> Inl e
           | Inr (zzchi2, zzcoeff) \<Rightarrow>
               (case parabola_fit E zz zzchi2 of
                  Inl e \<Rightarrow> Inl e
                | Inr (zmin, sigma, chi2min, zwarn) \<Rightarrow>
                    (case eval_zmin E redshifts tmpl zmin zwarn of
                       Inl e \<Rightarrow> Inl e
                     | Inr (coeff, zwarn') \<Rightarrow>
                         edge_policy E redshifts zz zzchi2 zmin sigma chi2min zwarn' coeff)))"

text \<open>
  The loop over the candidates: \<open>break\<close> once \<open>nminima\<close> results are held,
  \<open>continue\<close> at either velocity test. With an archetype set the call passes nine
  arguments: \<^verbatim>\<open>spectra, weights, flux, wflux, dwave, zbest, legendre, nearest_nbh, n_nbh\<close>.
\<close>

fun fitz_loop :: "env \<Rightarrow> real list \<Rightarrow> real list \<Rightarrow> template \<Rightarrow> int \<Rightarrow> archetype option
    \<Rightarrow> nat list \<Rightarrow> result list \<Rightarrow> error + result list" where
  "fitz_loop E zchi2 redshifts tmpl nminima archetype [] results = Inr results"
| "fitz_loop E zchi2 redshifts tmpl nminima archetype (imin # rest) results =
     (if int (length results) = nminima then Inr results
      else if length redshifts \<le> imin then Inl IndexError
      else if too_close E (redshifts ! imin) results
        then fitz_loop E zchi2 redshifts tmpl nminima archetype rest results
      else case refine E zchi2 redshifts tmpl imin of
        Inl e \<Rightarrow> Inl e
      | Inr r \<Rightarrow>
          if too_close E (res_z r) results
            then fitz_loop E zchi2 redshifts tmpl nminima archetype rest results
          else (case archetype of
             None \<Rightarrow> fitz_loop E zchi2 redshifts tmpl nminima archetype rest (results @ [r])
           | Some a \<Rightarrow>
               (case call_get_best_archetype 9 a (res_z r) of
                  Inl e \<Rightarrow> Inl e
                | Inr (chi2min, coeff, fulltype) \<Rightarrow>
                    fitz_loop E zchi2 redshifts tmpl nminima archetype rest
                      (results @ [r\<lparr>res_chi2 := chi2min, res_coeff := coeff,
                                     res_fulltype := Some fulltype\<rparr>]))))"

text \<open>
  The value returned: one column for each key of the dictionaries, the rows stacked by
  \<^verbatim>\<open>np.vstack\<close>, which raises ValueError when the rows differ in length. The rows of
  \<open>zz\<close> and \<open>zzchi2\<close> all have \<open>nz\<close> entries; those of \<open>coeff\<close> come from the
  collaborators. The column \<open>fulltype\<close> exists only with an archetype set.
\<close>

record table =
  tab_z :: "real list"
  tab_zerr :: "real list"
  tab_zwarn :: "nat list"
  tab_chi2 :: "real list"
  tab_zz :: "real list list"
  tab_zzchi2 :: "real list list"
  tab_coeff :: "real list list"
  tab_fulltype :: "string option list"
  tab_npixels :: "nat list"

definition vstack :: "'a list list \<Rightarrow> error + 'a list list" where
  "vstack rows =
     (if rows = [] \<or> (\<exists>r \<in> set rows. length r \<noteq> length (hd rows)) then Inl ValueError
      else Inr rows)"

definition to_table :: "result list \<Rightarrow> error + table" where
  "to_table results =
     (case vstack (map res_coeff results) of
        Inl e \<Rightarrow> Inl e
      | Inr coeffs \<Rightarrow>
          Inr \<lparr> tab_z = map res_z results, tab_zerr = map res_zerr results,
                tab_zwarn = map res_zwarn results, tab_chi2 = map res_chi2 results,
                tab_zz = map res_zz results, tab_zzchi2 = map res_zzchi2 results,
                tab_coeff = coeffs, tab_fulltype = map res_fulltype results,
                tab_npixels = map res_npixels results \<rparr>)"

text \<open>\<^verbatim>\<open>(s.ivar > 0.).sum()\<close> added up over the spectra.\<close>

definition count_npixels :: "store \<Rightarrow> spectrum list \<Rightarrow> nat" where
  "count_npixels h spectra =
     sum_list (map (\<lambda>s. length (filter (\<lambda>v. v > 0) (h (sp_ivar s)))) spectra)"

text \<open>
  \<open>fitz\<close> with \<open>use_gpu = False\<close>. With an archetype set the wavelength grids of the
  spectra are concatenated first, and \<^verbatim>\<open>np.concatenate\<close> raises ValueError when there
  is none.
\<close>

definition fitz :: "env \<Rightarrow> store \<Rightarrow> real list \<Rightarrow> real list \<Rightarrow> spectrum list \<Rightarrow> template
    \<Rightarrow> int \<Rightarrow> archetype option \<Rightarrow> error + table" where
  "fitz E h zchi2 redshifts spectra tmpl nminima archetype =
     (if length zchi2 \<noteq> length redshifts then Inl AssertionError
      else if archetype \<noteq> None \<and> spectra = [] then Inl ValueError
      else case spectral_data E of
        Inl e \<Rightarrow> Inl e
      | Inr u \<Rightarrow>
      (case find_minima E zchi2 of
        Inl e \<Rightarrow> Inl e
      | Inr cands \<Rightarrow>
      (case fitz_loop E zchi2 redshifts tmpl nminima archetype cands [] of
        Inl e \<Rightarrow> Inl e
      | Inr results \<Rightarrow>
          let ii = argsort E (map res_chi2 results);
              results = map (\<lambda>i. results ! i) ii
          in if \<not> length results > 0 then Inl AssertionError
             else to_table (map (\<lambda>r. r\<lparr>res_npixels := count_npixels h spectra\<rparr>) results))))"

subsection \<open>NumPy's sorting routine\<close>

text \<open>
  The code behind \<^verbatim>\<open>np.argsort\<close> with the default kind for float64, where no vectorised
  sort is dispatched: \<^verbatim>\<open>aquicksort_\<close> of \<^verbatim>\<open>npysort/quicksort.cpp\<close>, an introsort on the
  index array \<^verbatim>\<open>tosort\<close>. A segment of more than 17 indices is partitioned around the
  median of its first, middle and last value; the larger part is pushed on a stack with
  the depth left, \<open>2 * npy_get_msb(num)\<close> at the start and one less with each partition;
  a shorter segment is sorted by insertion; a part popped with a negative depth is sorted
  by \<^verbatim>\<open>aheapsort_\<close>. The segments are disjoint, so each one is sorted here as a list of
  its own, and the lists are put together again.
\<close>

definition swap :: "nat list \<Rightarrow> nat \<Rightarrow> nat \<Rightarrow> nat list" where
  "swap a i j = a[i := a ! j, j := a ! i]"

text \<open>
  The two inner scans of the partition, \<^verbatim>\<open>do ++pi; while (v[*pi] < vp)\<close> from the index
  \<open>i\<close> on and \<^verbatim>\<open>do --pj; while (vp < v[*pj])\<close> from the index \<open>j\<close> down. In the C
  code they are stopped by the values that the median of three has put at both ends of the
  segment; the bounds written here are never reached before those.
\<close>

function scan_up :: "real list \<Rightarrow> real \<Rightarrow> nat list \<Rightarrow> nat \<Rightarrow> nat" where
  "scan_up v vp a i =
     (if i + 2 < length a \<and> v ! (a ! i) < vp then scan_up v vp a (Suc i) else i)"
  by pat_completeness auto
termination
  by (relation "measure (\<lambda>(v, vp, a, i). length a - i)") auto

fun scan_down :: "real list \<Rightarrow> real \<Rightarrow> nat list \<Rightarrow> nat \<Rightarrow> nat" where
  "scan_down v vp a 0 = 0"
| "scan_down v vp a (Suc j) = (if vp < v ! (a ! Suc j) then scan_down v vp a j else Suc j)"

function part_loop :: "real list \<Rightarrow> real \<Rightarrow> nat list \<Rightarrow> nat \<Rightarrow> nat \<Rightarrow> nat list \<times> nat" where
  "part_loop v vp a i j =
     (let i' = scan_up v vp a (Suc i);
          j' = scan_down v vp a (j - 1)
      in if i' \<ge> j' then (a, i') else part_loop v vp (swap a i' j') i' j')"
  by pat_completeness auto
termination
proof (relation "measure (\<lambda>(v, vp, a, i, j). j - i)")
  show "wf (measure (\<lambda>(v, vp, a, i, j). j - i))" by simp
next
  fix v vp a i j i' j'
  assume i': "i' = scan_up v vp a (Suc i)" and j': "j' = scan_down v vp a (j - 1)"
    and n: "\<not> j' \<le> i'"
  have up: "k \<le> scan_up v vp a k" for k
    by (induction v vp a k rule: scan_up.induct) (metis Suc_leD order_refl scan_up.simps)
  have down: "scan_down v vp a k \<le> k" for k
    by (induction k) auto
  have "Suc i \<le> i'" using up i' by simp
  moreover have "j' \<le> j - 1" using down j' by simp
  ultimately show "((v, vp, swap a i' j', i', j'), (v, vp, a, i, j))
      \<in> measure (\<lambda>(v, vp, a, i, j). j - i)"
    using n by auto
qed

declare scan_up.simps [simp del] part_loop.simps [simp del]

text \<open>
  One partition of a segment: the median of three, the pivot put next to the last index,
  the scans, the pivot put at its place \<open>pi\<close>.
\<close>

definition partition :: "real list \<Rightarrow> nat list \<Rightarrow> nat list \<times> nat" where
  "partition v a =
     (let pr = length a - 1;
          pm = pr div 2;
          a = (if v ! (a ! pm) < v ! (a ! 0) then swap a pm 0 else a);
          a = (if v ! (a ! pr) < v ! (a ! pm) then swap a pr pm else a);
          a = (if v ! (a ! pm) < v ! (a ! 0) then swap a pm 0 else a);
          vp = v ! (a ! pm);
          a = swap a pm (pr - 1);
          (a, i) = part_loop v vp a 0 (pr - 1)
      in (swap a i (pr - 1), i))"

text \<open>
  The insertion sort: each index in turn is moved down past the indices of greater value.
  The sorted part is held with its last index first.
\<close>

fun insert_back :: "real list \<Rightarrow> nat \<Rightarrow> nat list \<Rightarrow> nat list" where
  "insert_back v vi [] = [vi]"
| "insert_back v vi (p # ps) =
     (if v ! vi < v ! p then p # insert_back v vi ps else vi # p # ps)"

definition insertion_sort :: "real list \<Rightarrow> nat list \<Rightarrow> nat list" where
  "insertion_sort v a = rev (foldl (\<lambda>acc vi. insert_back v vi acc) [] a)"

text \<open>
  The heap sort, with the one-based indices \<open>i\<close>, \<open>j\<close>, \<open>l\<close> and \<open>n\<close> of the C
  code: \<open>sift\<close> is the inner loop, which moves \<open>tmp\<close> down from the place \<open>i\<close>.
\<close>

function sift :: "real list \<Rightarrow> nat \<Rightarrow> nat \<Rightarrow> nat list \<Rightarrow> nat \<Rightarrow> nat \<Rightarrow> nat list" where
  "sift v tmp n a i j =
     (if 0 < j \<and> j \<le> n then
        let j = (if j < n \<and> v ! (a ! (j - 1)) < v ! (a ! j) then j + 1 else j)
        in if v ! tmp < v ! (a ! (j - 1)) then sift v tmp n (a[i - 1 := a ! (j - 1)]) j (j + j)
           else a[i - 1 := tmp]
      else a[i - 1 := tmp])"
  by pat_completeness auto
termination
  by (relation "measure (\<lambda>(v, tmp, n, a, i, j). Suc n - j)") auto

declare sift.simps [simp del]

definition aheapsort :: "real list \<Rightarrow> nat list \<Rightarrow> nat list" where
  "aheapsort v a =
     (let n = length a;
          a = foldl (\<lambda>a l. sift v (a ! (l - 1)) n a l (l + l)) a (rev [1..<Suc (n div 2)])
      in foldl (\<lambda>a n. sift v (a ! (n - 1)) (n - 1) (a[n - 1 := a ! 0]) 1 2) a (rev [2..<Suc n]))"

text \<open>\<^verbatim>\<open>npy_get_msb\<close>: the position of the highest bit that is set.\<close>

fun msb :: "nat \<Rightarrow> nat" where
  "msb n = (if n < 2 then 0 else Suc (msb (n div 2)))"

declare msb.simps [simp del]

text \<open>
  The sort of one segment with the depth \<open>cdepth\<close> left. After a partition the smaller
  part is sorted next, with the depth reduced; the larger part is popped later, with the
  same reduced depth, and goes to the heap sort when that is negative.
\<close>

function aquicksort_seg :: "real list \<Rightarrow> int \<Rightarrow> nat list \<Rightarrow> nat list" where
  "aquicksort_seg v cdepth a =
     (if length a - 1 > 16 then
        let a' = fst (partition v a);
            i = snd (partition v a);
            l = take i a';
            r = drop (Suc i) a';
            cdepth = cdepth - 1
        in if length l < length r
           then aquicksort_seg v cdepth l @ [a' ! i]
                  @ (if cdepth < 0 then aheapsort v r else aquicksort_seg v cdepth r)
           else (if cdepth < 0 then aheapsort v l else aquicksort_seg v cdepth l) @ [a' ! i]
                  @ aquicksort_seg v cdepth r
      else insertion_sort v a)"
  by pat_completeness auto
termination
proof -
  have up: "scan_up v vp a k \<le> max k (length a - 2)" for v vp a k
    by (induction v vp a k rule: scan_up.induct) (subst scan_up.simps, auto)
  have down: "scan_down v vp a k \<le> k" for v vp a k
    by (induction k) auto
  have loop: "part_loop v vp a i j = (a', p) \<Longrightarrow> j + 2 \<le> length a \<Longrightarrow> i < j
     \<Longrightarrow> length a' = length a \<and> p + 2 \<le> length a" for v vp a i j a' p
  proof (induction v vp a i j rule: part_loop.induct)
    case (1 v vp a i j)
    let ?i = "scan_up v vp a (Suc i)" and ?j = "scan_down v vp a (j - 1)"
    show ?case
    proof (cases "?i \<ge> ?j")
      case True
      then have "a' = a" "p = ?i"
        using "1.prems"(1) by (subst (asm) part_loop.simps, simp add: Let_def)+
      then show ?thesis using up[of v vp a "Suc i"] "1.prems" by auto
    next
      case False
      have j: "?j \<le> j - 1" using down by simp
      have r: "part_loop v vp (swap a ?i ?j) ?i ?j = (a', p)"
        using False "1.prems"(1) by (subst (asm) part_loop.simps) (simp add: Let_def)
      have "length a' = length (swap a ?i ?j) \<and> p + 2 \<le> length (swap a ?i ?j)"
        by (rule "1.IH"[OF refl refl False r]) (use False j "1.prems" in \<open>auto simp: swap_def\<close>)
      then show ?thesis by (simp add: swap_def)
    qed
  qed
  have part: "length (fst (partition v a)) = length a \<and> snd (partition v a) < length a"
    if "16 < length a - 1" for v a
  proof -
    let ?pr = "length a - 1"
    obtain a4 vp where p: "partition v a
        = (swap (fst (part_loop v vp a4 0 (?pr - 1))) (snd (part_loop v vp a4 0 (?pr - 1))) (?pr - 1),
           snd (part_loop v vp a4 0 (?pr - 1)))" and l4: "length a4 = length a"
      by (simp add: partition_def Let_def swap_def split_beta)
    obtain a5 i where q: "part_loop v vp a4 0 (?pr - 1) = (a5, i)"
      by (cases "part_loop v vp a4 0 (?pr - 1)")
    have "length a5 = length a4 \<and> i + 2 \<le> length a4"
      by (rule loop[OF q]) (use that l4 in auto)
    then show ?thesis using p q l4 by (simp add: swap_def)
  qed
  show ?thesis
    by (relation "measure (\<lambda>(v, d, a). length a)") (use part in \<open>auto simp: Let_def\<close>)
qed

declare aquicksort_seg.simps [simp del]

definition aquicksort :: "real list \<Rightarrow> nat list" where
  "aquicksort v = aquicksort_seg v (2 * int (msb (length v))) [0..<length v]"

text \<open>
  The routine as a value of the type \<open>sorter\<close>. The type asks for the contract of
  \<^verbatim>\<open>np.argsort\<close>, and the test in the definition is what makes the value one of the type.
\<close>

definition numpy_argsort :: sorter where
  "numpy_argsort =
     Abs_sorter (\<lambda>v. let p = aquicksort v
                     in if sorts v p then p else sort_key (\<lambda>i. v ! i) [0..<length v])"

subsection \<open>The least-squares parabola\<close>

text \<open>
  What \<^verbatim>\<open>np.polyfit(x, y, 2)\<close> computes, in exact arithmetic; the routine returns these
  coefficients up to the rounding of its float64 computation. It scales the columns
  \<open>x\<^sup>2, x, 1\<close> of the design matrix to unit length and calls \<^verbatim>\<open>lstsq\<close>, which returns
  the least-squares solution, and of several the one of least norm (in the scaled
  coefficients):
  \<^item> with three or more different abscissae the solution of the normal equations, by
    Cramer's rule (for three points, the parabola through them);
  \<^item> with two different abscissae \<open>u\<close> and \<open>w\<close> the parabolas through the means of the
    ordinates at \<open>u\<close> and at \<open>w\<close> are the solutions: the line through them plus
    \<open>t (x - u) (x - w)\<close>, \<open>t\<close> being the value of least norm;
  \<^item> with one abscissa \<open>u\<close> the three scaled columns are equal up to sign, and the mean
    of the ordinates is shared equally between them; for \<open>u = 0\<close> the scaling divides
    zero by zero and \<^verbatim>\<open>lstsq\<close> raises LinAlgError on the matrix of NaN.
  An empty \<open>x\<close> and arrays of different lengths raise TypeError.
\<close>

definition psum :: "real list \<Rightarrow> nat \<Rightarrow> real" where
  "psum x k = sum_list (map (\<lambda>t. t ^ k) x)"

definition pmom :: "real list \<Rightarrow> real list \<Rightarrow> nat \<Rightarrow> real" where
  "pmom x y k = sum_list (map2 (\<lambda>t u. t ^ k * u) x y)"

definition det3 :: "real \<times> real \<times> real \<Rightarrow> real \<times> real \<times> real \<Rightarrow> real \<times> real \<times> real \<Rightarrow> real" where
  "det3 r1 r2 r3 =
     (case (r1, r2, r3) of ((a, b, c), (d, e, f), (g, h, i)) \<Rightarrow>
        a * (e * i - f * h) - b * (d * i - f * g) + c * (d * h - e * g))"

definition ymean :: "real list \<Rightarrow> real list \<Rightarrow> real \<Rightarrow> real" where
  "ymean x y u =
     (let ys = map snd (filter (\<lambda>p. fst p = u) (zip x y))
      in sum_list ys / real (length ys))"

definition polyfit_exact :: "real list \<Rightarrow> real list \<Rightarrow> error + (real \<times> real \<times> real)" where
  "polyfit_exact x y =
     (if x = [] \<or> length x \<noteq> length y then Inl TypeError
      else
        let S = psum x; T = pmom x y; d = remdups x
        in if 3 \<le> length d then
             let D = det3 (S 4, S 3, S 2) (S 3, S 2, S 1) (S 2, S 1, S 0)
             in Inr (det3 (T 2, S 3, S 2) (T 1, S 2, S 1) (T 0, S 1, S 0) / D,
                     det3 (S 4, T 2, S 2) (S 3, T 1, S 1) (S 2, T 0, S 0) / D,
                     det3 (S 4, S 3, T 2) (S 3, S 2, T 1) (S 2, S 1, T 0) / D)
           else if length d = 2 then
             let u = d ! 0;
                 w = d ! 1;
                 b0 = (ymean x y w - ymean x y u) / (w - u);
                 c0 = ymean x y u - b0 * u;
                 t = (S 2 * (u + w) * b0 - S 0 * (u * w) * c0)
                       / (S 4 + S 2 * (u + w) ^ 2 + S 0 * (u * w) ^ 2)
             in Inr (t, b0 - t * (u + w), c0 + t * (u * w))
           else
             let u = d ! 0;
                 m = ymean x y u
             in if u = 0 then Inl LinAlgError
                else Inr (m / (3 * u ^ 2), m / (3 * u), m / 3))"

subsection \<open>Concrete inputs for the examples\<close>

text \<open>
  The constants are given the values 1000 km/s and 0.99, and the flags the bits 10 and 5;
  the fits are the least-squares parabolas and the sort is the introsort above. The
  template of \<open>ex_env\<close> has the chi-squared \<open>z\<^sup>2 + 1\<close> and one coefficient.
\<close>

definition ex_env :: env where
  "ex_env = \<lparr> polyfit = polyfit_exact, np_argsort = numpy_argsort,
      spectral_data = Inr (),
      zchi2_at = (\<lambda>z. Inr (z ^ 2 + 1, [1])),
      BAD_MINFIT = 1024, Z_FITLIMIT = 32, max_velo_diff = 1000,
      min_resolution_integral = 99 / 100 \<rparr>"

text \<open>Three arrays of three pixels (wave, flux, ivar) and a resolution matrix for them.\<close>

definition ex_store :: store where
  "ex_store = (\<lambda>a. []) (0 := [3600, 3601, 3602], 1 := [5, 6, 7], 2 := [1, 2, 4])"

definition ex_R :: resolution where
  "ex_R = \<lparr> R_rows = [[1 / 2, 1 / 4], [1 / 4, 1 / 2, 1 / 4], [1 / 4, 3 / 4]], R_ndiag = 3 \<rparr>"

text \<open>A template with one basis vector, a spectrum over the three arrays, two archetypes.\<close>

definition ex_tmpl :: template where
  "ex_tmpl = \<lparr> nbasis = 1 \<rparr>"

definition ex_spectrum :: spectrum where
  "ex_spectrum = \<lparr> sp_nwave = 3, sp_wave = 0, sp_flux = 1, sp_ivar = 2, sp_R = None,
      sp_Rcsr = None, sp_mpshared = False,
      sp_wavehash = (3, 3600, 3601, 3601, 3602, None) \<rparr>"

definition ex_arch :: archetype where
  "ex_arch = \<lparr> narch = 2, subtype = [''ELG'', ''LRG''],
      arch_zchi2 = (\<lambda>i z. Inr (real (Suc i) + z, [1, 0, 0, 0])) \<rparr>"

text \<open>
  The scan \<open>[2, 5, 10]\<close> over the redshifts \<open>[1, 2, 3]\<close> falls towards its lower edge;
  with \<open>ex_env\<close> the fitted parabola has its vertex at 0, below the scan. This is the
  table \<open>fitz\<close> returns for it (the store being the one left by the constructor above).
\<close>

definition ex_edge_table :: table where
  "ex_edge_table = \<lparr> tab_z = [1], tab_zerr = [1], tab_zwarn = [1056], tab_chi2 = [2],
      tab_zz = [linspace 1 2 15], tab_zzchi2 = [map (\<lambda>z. z ^ 2 + 1) (linspace 1 2 15)],
      tab_coeff = [[1]], tab_fulltype = [None], tab_npixels = [2] \<rparr>"

text \<open>A template that cannot be rebinned below redshift 1/2.\<close>

definition ex_env_limited :: env where
  "ex_env_limited =
     ex_env \<lparr> zchi2_at := (\<lambda>z. if z < 1 / 2 then Inl ValueError else Inr (z ^ 2 + 1, [1])) \<rparr>"

text \<open>
  A chi-squared curve with two wells, at redshift 0 and at redshift 0.00334, and its scan
  at three redshifts; the two results of \<open>fitz\<close> for it and the table it returns.
\<close>

definition two_wells :: "real \<Rightarrow> real" where
  "two_wells z = (if z < 167 / 100000 then 1 + z ^ 2 else 2 + (z - 167 / 50000) ^ 2)"

definition ex_env_two :: env where
  "ex_env_two = ex_env \<lparr> zchi2_at := (\<lambda>z. Inr (two_wells z, [1])) \<rparr>"

definition ex_two_redshifts :: "real list" where
  "ex_two_redshifts = [0, 167 / 100000, 167 / 50000]"

definition ex_two_zchi2 :: "real list" where
  "ex_two_zchi2 = map two_wells ex_two_redshifts"

definition ex_two_r1 :: result where
  "ex_two_r1 = \<lparr> res_z = 0, res_zerr = 1, res_zwarn = 1056, res_chi2 = 1,
      res_zz = linspace 0 (167 / 100000) 15,
      res_zzchi2 = map two_wells (linspace 0 (167 / 100000) 15),
      res_coeff = [1], res_fulltype = None, res_npixels = 0 \<rparr>"

definition ex_two_r2 :: result where
  "ex_two_r2 = \<lparr> res_z = 167 / 50000, res_zerr = 1, res_zwarn = 1056, res_chi2 = 2,
      res_zz = linspace (167 / 100000) (167 / 50000) 15,
      res_zzchi2 = map two_wells (linspace (167 / 100000) (167 / 50000) 15),
      res_coeff = [1], res_fulltype = None, res_npixels = 0 \<rparr>"

definition ex_two_table :: table where
  "ex_two_table = \<lparr> tab_z = [0, 167 / 50000], tab_zerr = [1, 1], tab_zwarn = [1056, 1056],
      tab_chi2 = [1, 2], tab_zz = [res_zz ex_two_r1, res_zz ex_two_r2],
      tab_zzchi2 = [res_zzchi2 ex_two_r1, res_zzchi2 ex_two_r2],
      tab_coeff = [[1], [1]], tab_fulltype = [None, None], tab_npixels = [3, 3] \<rparr>"

text \<open>
  A scan of 20 redshifts, 0 to 1.9, of a chi-squared curve with one well at redshift 1,
  which is the redshift of index 10.
\<close>

definition ex_env_deep :: env where
  "ex_env_deep = ex_env \<lparr> zchi2_at := (\<lambda>z. Inr ((z - 1) ^ 2 + 1, [1])) \<rparr>"



text \<open>
  A scan of 20 redshifts that is flat but for one dip at index 10: every index but the two
  next to the dip is a candidate, and all candidates but the dip have the same value.
\<close>

definition ex_flat_zchi2 :: "real list" where
  "ex_flat_zchi2 = map (\<lambda>k. if k = 10 then 1 else 100) [0..<20]"

text \<open>
  A scan at three redshifts around 0 of the chi-squared \<open>z\<^sup>2 + 1\<close> of \<open>ex_env\<close>, whose
  middle redshift 0.004 is refined to 0, and a result held at redshift 0.0005.
\<close>

definition ex_near_redshifts :: "real list" where
  "ex_near_redshifts = [- (1 / 100), 1 / 250, 1 / 50]"

definition ex_near_zchi2 :: "real list" where
  "ex_near_zchi2 = map (\<lambda>z. z ^ 2 + 1) ex_near_redshifts"

definition ex_near_held :: result where
  "ex_near_held = \<lparr> res_z = 1 / 2000, res_zerr = 1, res_zwarn = 0, res_chi2 = 1,
      res_zz = [], res_zzchi2 = [], res_coeff = [1], res_fulltype = None, res_npixels = 0 \<rparr>"

definition ex_near_refined :: result where
  "ex_near_refined = \<lparr> res_z = 0, res_zerr = 1, res_zwarn = 32, res_chi2 = 1,
      res_zz = linspace (- (1 / 100)) (1 / 50) 15,
      res_zzchi2 = map (\<lambda>z. z ^ 2 + 1) (linspace (- (1 / 100)) (1 / 50) 15),
      res_coeff = [1], res_fulltype = None, res_npixels = 0 \<rparr>"

text \<open>
  A template that cannot be rebinned above redshift 0.0015, and a scan at three redshifts
  with candidates at both ends, 600 km/s apart; the result of \<open>fitz\<close> for it.
\<close>

definition ex_env_cut :: env where
  "ex_env_cut =
     ex_env \<lparr> zchi2_at := (\<lambda>z. if 3 / 2000 < z then Inl ValueError else Inr (z ^ 2 + 1, [1])) \<rparr>"

definition ex_cut_redshifts :: "real list" where
  "ex_cut_redshifts = [0, 1 / 1000, 1 / 500]"

definition ex_cut_zchi2 :: "real list" where
  "ex_cut_zchi2 = [1, 5, 2]"

definition ex_cut_r :: result where
  "ex_cut_r = \<lparr> res_z = 0, res_zerr = 1, res_zwarn = 1056, res_chi2 = 1,
      res_zz = linspace 0 (1 / 1000) 15,
      res_zzchi2 = map (\<lambda>z. z ^ 2 + 1) (linspace 0 (1 / 1000) 15),
      res_coeff = [1], res_fulltype = None, res_npixels = 0 \<rparr>"

definition ex_cut_table :: table where
  "ex_cut_table = \<lparr> tab_z = [0], tab_zerr = [1], tab_zwarn = [1056], tab_chi2 = [1],
      tab_zz = [res_zz ex_cut_r], tab_zzchi2 = [res_zzchi2 ex_cut_r],
      tab_coeff = [[1]], tab_fulltype = [None], tab_npixels = [3] \<rparr>"

section \<open>Properties\<close>

subsection \<open>Sorting\<close>

lemma sorts_argsort: "sorts v (argsort E v)"
  using run_sorter[of "np_argsort E"] by (simp add: argsort_def)

lemma sorts_mset: "sorts v p \<Longrightarrow> mset p = mset [0..<length v]"
  by (metis mset_sort sorts_def)

lemma sorts_set: "sorts v p \<Longrightarrow> set p = {0..<length v}"
  by (metis sorts_mset set_mset_mset set_upt)

lemma sorts_distinct: "sorts v p \<Longrightarrow> distinct p"
  by (metis sorts_mset distinct_upt mset_eq_imp_distinct_iff)

lemma sorts_length: "sorts v p \<Longrightarrow> length p = length v"
  by (metis sorts_mset mset_eq_length length_upt diff_zero)

lemma sorts_Nil: "sorts [] p \<Longrightarrow> p = []"
  using sorts_length by fastforce


lemma length_argsort: "length (argsort E v) = length v"
  using sorts_argsort sorts_length by blast

lemma argsort_eq_Nil: "(argsort E v = []) = (v = [])"
  by (metis length_0_conv length_argsort)

lemma nth_image_all: "(\<lambda>j. xs ! j) ` {0..<length xs} = set xs"
  using nth_image[of "length xs" xs] by simp

lemma map_nth_perm:
  assumes "mset p = mset [0..<length xs]"
  shows "mset (map (\<lambda>i. xs ! i) p) = mset xs"
proof -
  have "mset (map (\<lambda>i. xs ! i) p) = image_mset (\<lambda>i. xs ! i) (mset p)" by simp
  also have "\<dots> = mset (map (\<lambda>i. xs ! i) [0..<length xs])" using assms by simp
  finally show ?thesis by (simp add: map_nth)
qed

lemma argsort_perm:
  "mset (map (\<lambda>i. rs ! i) (argsort E (map f rs))) = mset rs"
  using map_nth_perm[of "argsort E (map f rs)" rs] sorts_mset[OF sorts_argsort, of E "map f rs"]
  by simp

lemma argsort_sorted:
  "sorted (map f (map (\<lambda>i. rs ! i) (argsort E (map f rs))))"
proof -
  let ?p = "argsort E (map f rs)"
  have s: "sorts (map f rs) ?p" by (rule sorts_argsort)
  have e: "map f (map (\<lambda>i. rs ! i) ?p) = map (\<lambda>i. map f rs ! i) ?p"
    using sorts_set[OF s] by auto
  have "sorted (map (\<lambda>i. map f rs ! i) ?p)" using s by (simp add: sorts_def)
  then show ?thesis by (simp only: e)
qed

text \<open>A relation that holds of every two entries of a list, both ways, holds after a permutation.\<close>

lemma perm_sym:
  assumes d: "distinct p" and r: "\<forall>i \<in> set p. i < length xs"
    and s: "sorted_wrt S xs" and sym: "\<And>a b. S a b \<Longrightarrow> S b a"
  shows "sorted_wrt S (map (\<lambda>i. xs ! i) p)"
proof -
  have "S (xs ! i) (xs ! j)" if "i < length xs" "j < length xs" "i \<noteq> j" for i j
  proof (cases "i < j")
    case True
    then show ?thesis using s that by (simp add: sorted_wrt_iff_nth_less)
  next
    case False
    then have "j < i" using that by simp
    then have "S (xs ! j) (xs ! i)" using s that by (simp add: sorted_wrt_iff_nth_less)
    then show ?thesis by (rule sym)
  qed
  then show ?thesis
    using d r by (auto simp: sorted_wrt_iff_nth_less nth_eq_iff_index_eq)
qed

text \<open>The insertion sort keeps equal values in their order: it is the stable sort.\<close>

lemma insert_back_mset: "mset (insert_back v x ys) = add_mset x (mset ys)"
  by (induction ys) auto

lemma insert_back_set: "set (insert_back v x ys) = insert x (set ys)"
  by (induction ys) auto

lemma insert_back_sorted:
  "sorted (map (\<lambda>i. v ! i) (rev ys)) \<Longrightarrow> sorted (map (\<lambda>i. v ! i) (rev (insert_back v x ys)))"
proof (induction ys)
  case Nil
  then show ?case by simp
next
  case (Cons p ps)
  show ?case
  proof (cases "v ! x < v ! p")
    case True
    have "sorted (map (\<lambda>i. v ! i) (rev ps))" using Cons.prems by (simp add: sorted_append)
    then have "sorted (map (\<lambda>i. v ! i) (rev (insert_back v x ps)))" by (rule Cons.IH)
    moreover have "\<forall>q \<in> set (insert_back v x ps). v ! q \<le> v ! p"
      using Cons.prems True by (auto simp: sorted_append insert_back_set)
    ultimately show ?thesis using True by (simp add: sorted_append)
  next
    case False
    then show ?thesis using Cons.prems by (auto simp: sorted_append)
  qed
qed

lemma insert_back_filter:
  "sorted (map (\<lambda>i. v ! i) (rev ys)) \<Longrightarrow>
     filter (\<lambda>q. v ! k = v ! q) (rev (insert_back v x ys))
       = filter (\<lambda>q. v ! k = v ! q) (rev ys @ [x])"
proof (induction ys)
  case Nil
  then show ?case by simp
next
  case (Cons p ps)
  show ?case
  proof (cases "v ! x < v ! p")
    case True
    have s: "sorted (map (\<lambda>i. v ! i) (rev ps))" using Cons.prems by (simp add: sorted_append)
    have "\<not> (v ! k = v ! p \<and> v ! k = v ! x)" using True by auto
    then show ?thesis using True Cons.IH[OF s] by auto
  next
    case False
    then show ?thesis by simp
  qed
qed

lemma insertion_sort_stable: "insertion_sort v a = sort_key (\<lambda>i. v ! i) a"
proof -
  let ?acc = "\<lambda>a. foldl (\<lambda>acc vi. insert_back v vi acc) [] a"
  have "mset (?acc a) = mset a \<and> sorted (map (\<lambda>i. v ! i) (rev (?acc a)))
      \<and> (\<forall>k. filter (\<lambda>q. v ! k = v ! q) (rev (?acc a)) = filter (\<lambda>q. v ! k = v ! q) a)"
  proof (induction a rule: rev_induct)
    case Nil
    show ?case by simp
  next
    case (snoc x xs)
    then show ?case
      by (simp add: insert_back_mset insert_back_sorted insert_back_filter)
  qed
  then have "sort_key (\<lambda>i. v ! i) a = rev (?acc a)"
    by (intro properties_for_sort_key) auto
  then show ?thesis by (simp add: insertion_sort_def)
qed

lemma aquicksort_small:
  assumes "length v \<le> 17"
  shows "aquicksort v = sort_key (\<lambda>i. v ! i) [0..<length v]"
proof -
  have "\<not> 16 < length [0..<length v] - 1" using assms by simp
  then show ?thesis
    unfolding aquicksort_def by (subst aquicksort_seg.simps) (simp add: insertion_sort_stable)
qed

lemma run_numpy_argsort:
  "run_sorter numpy_argsort v
     = (let p = aquicksort v in if sorts v p then p else sort_key (\<lambda>i. v ! i) [0..<length v])"
  unfolding numpy_argsort_def
  by (subst Abs_sorter_inverse) (auto simp: Let_def sorts_def properties_for_sort)

lemma numpy_argsort_small:
  "length v \<le> 17 \<Longrightarrow> run_sorter numpy_argsort v = sort_key (\<lambda>i. v ! i) [0..<length v]"
  by (simp add: run_numpy_argsort Let_def aquicksort_small)

lemma argsort_small:
  "np_argsort E = numpy_argsort \<Longrightarrow> length v \<le> 17
     \<Longrightarrow> argsort E v = sort_key (\<lambda>i. v ! i) [0..<length v]"
  by (simp add: argsort_def numpy_argsort_small)

subsection \<open>find\_minima\<close>

lemma mask_nth:
  assumes "k < length (x::real list)"
  shows "(map2 (\<and>) (True # map2 (\<le>) (tl x) (butlast x))
            (map2 (\<le>) (butlast x) (tl x) @ [True])) ! k = local_min x k"
proof -
  have n: "x \<noteq> []" using assms by auto
  let ?l = "True # map2 (\<le>) (tl x) (butlast x)"
  let ?r = "map2 (\<le>) (butlast x) (tl x) @ [True]"
  have ll: "length ?l = length x" using n by (cases x) auto
  have lr: "length ?r = length x" using n by (cases x) auto
  have l: "?l ! k = (k = 0 \<or> x ! k \<le> x ! (k - 1))"
    using assms by (cases k) (auto simp: nth_tl nth_butlast)
  have r: "?r ! k = (Suc k = length x \<or> x ! k \<le> x ! Suc k)"
    using assms by (auto simp: nth_append nth_tl nth_butlast)
  show ?thesis using l r ll lr assms by (simp add: local_min_def)
qed

lemma length_masks:
  "x \<noteq> [] \<Longrightarrow>
   length (map2 (\<and>) (True # map2 (\<le>) (tl x) (butlast x))
             (map2 (\<le>) (butlast x) (tl x) @ [True])) = length (x::real list)"
  by (cases x) auto

lemma candidates_eq:
  "x \<noteq> [] \<Longrightarrow>
   np_where (map2 (\<and>) (True # map2 (\<le>) (tl x) (butlast x))
               (map2 (\<le>) (butlast x) (tl x) @ [True]))
     = filter (local_min x) [0..<length x]"
  unfolding np_where_def length_masks
  by (rule filter_cong[OF refl]) (simp only: set_upt atLeastLessThan_iff mask_nth)

lemma find_minima_eq:
  assumes n: "x \<noteq> []"
  shows "find_minima E x
     = Inr (map (\<lambda>j. filter (local_min x) [0..<length x] ! j)
              (argsort E (map (\<lambda>i. x ! i) (filter (local_min x) [0..<length x]))))"
proof -
  let ?ii = "filter (local_min x) [0..<length x]"
  have t: "take_idx x ?ii = Inr (map (\<lambda>i. x ! i) ?ii)" by (simp add: take_idx_def)
  have "\<forall>j \<in> set (argsort E (map (\<lambda>i. x ! i) ?ii)). j < length ?ii"
    using sorts_set[OF sorts_argsort, of E "map (\<lambda>i. x ! i) ?ii"] by simp
  then show ?thesis
    by (simp add: find_minima_def candidates_eq[OF n] t take_idx_def Let_def)
qed

lemma map_sort_key_comp: "map g (sort_key (\<lambda>i. f (g i)) xs) = sort_key f (map g xs)"
proof (induction xs)
  case Nil
  show ?case by simp
next
  case (Cons a xs)
  have ins: "map g (insort_key (\<lambda>i. f (g i)) a ys) = insort_key f (g a) (map g ys)" for ys
    by (induction ys) auto
  show ?case using Cons by (simp add: ins)
qed

lemma sort_key_cong_set:
  "(\<And>i. i \<in> set xs \<Longrightarrow> f i = g i) \<Longrightarrow> sort_key f xs = sort_key g xs"
proof (induction xs)
  case Nil
  show ?case by simp
next
  case (Cons a xs)
  have ins: "\<forall>i \<in> insert a (set ys). f i = g i \<Longrightarrow> insort_key f a ys = insort_key g a ys" for ys
    by (induction ys) auto
  have "\<forall>i \<in> insert a (set (sort_key g xs)). f i = g i" using Cons.prems by simp
  then show ?case using Cons by (simp add: ins)
qed

lemma stable_by_index:
  "map (\<lambda>j. ii ! j) (sort_key (\<lambda>j. map (\<lambda>i. x ! i) ii ! j) [0..<length ii])
     = sort_key (\<lambda>k. x ! k) ii"
proof -
  have a: "sort_key (\<lambda>i. map (\<lambda>i. x ! i) ii ! i) [0..<length ii]
         = sort_key (\<lambda>i. x ! (ii ! i)) [0..<length ii]"
    by (rule sort_key_cong_set) simp
  have "map (\<lambda>i. ii ! i) (sort_key (\<lambda>i. x ! (ii ! i)) [0..<length ii])
      = sort_key (\<lambda>k. x ! k) (map (\<lambda>i. ii ! i) [0..<length ii])"
    by (rule map_sort_key_comp)
  then show ?thesis by (simp add: a map_nth)
qed

lemma insort_lex:
  fixes f :: "nat \<Rightarrow> real"
  assumes "sorted_wrt (\<lambda>p q. f p < f q \<or> (f p = f q \<and> p < q)) ys" "\<forall>y \<in> set ys. a < y"
  shows "sorted_wrt (\<lambda>p q. f p < f q \<or> (f p = f q \<and> p < q)) (insort_key f a ys)"
  using assms by (induction ys) (auto simp: set_insort_key)

lemma sort_key_lex:
  fixes f :: "nat \<Rightarrow> real"
  shows "sorted_wrt (<) xs \<Longrightarrow>
    sorted_wrt (\<lambda>p q. f p < f q \<or> (f p = f q \<and> p < q)) (sort_key f xs)"
  by (induction xs) (auto intro!: insort_lex)

lemma find_minima_small:
  assumes "np_argsort E = numpy_argsort" "x \<noteq> []"
    "length (filter (local_min x) [0..<length x]) \<le> 17"
  shows "find_minima E x = Inr (sort_key (\<lambda>k. x ! k) (filter (local_min x) [0..<length x]))"
  using assms by (simp add: find_minima_eq argsort_small stable_by_index)

lemma upt20:
  "[0..<20] = [0, 1, 2, 3, 4, 5, 6, 7, 8, 9, 10, 11, 12, 13, 14, 15, 16, 17, 18, 19]"
  by (simp add: upt_rec)

lemma aquicksort_flat:
  "aquicksort [100, 100, 100, 100, 100, 100, 100, 100, 100, 1, 100, 100, 100, 100, 100, 100,
       100, 100]
     = [9, 0, 15, 14, 13, 12, 11, 10, 8, 7, 6, 5, 4, 3, 2, 1, 16, 17]"
  by code_simp

lemma argsort_flat:
  "argsort ex_env [100, 100, 100, 100, 100, 100, 100, 100, 100, 1, 100, 100, 100, 100, 100, 100,
       100, 100]
     = [9, 0, 15, 14, 13, 12, 11, 10, 8, 7, 6, 5, 4, 3, 2, 1, 16, 17]"
  by (simp add: argsort_def ex_env_def run_numpy_argsort aquicksort_flat sorts_def)

text \<open>
  C4, as stated, fails. On the scan that is flat but for a dip at index 10 the candidates
  of equal value come out as 0, 17, 16, ..., 12, 8, 7, ..., 1, 18, 19: not in the order of
  their indices. The sort partitions the 18 candidates once and sorts the two parts by
  insertion.
\<close>

theorem find_minima_ties_not_by_index:
  "find_minima ex_env ex_flat_zchi2
     = Inr [10, 0, 17, 16, 15, 14, 13, 12, 8, 7, 6, 5, 4, 3, 2, 1, 18, 19]
   \<and> ex_flat_zchi2 ! 17 = ex_flat_zchi2 ! 16
   \<and> \<not> sorted_wrt (\<lambda>p q. ex_flat_zchi2 ! p < ex_flat_zchi2 ! q
            \<or> (ex_flat_zchi2 ! p = ex_flat_zchi2 ! q \<and> p < q))
          [10, 0, 17, 16, 15, 14, 13, 12, 8, 7, 6, 5, 4, 3, 2, 1, 18, 19]"
proof -
  have x: "ex_flat_zchi2 = [100, 100, 100, 100, 100, 100, 100, 100, 100, 100, 1, 100, 100, 100,
      100, 100, 100, 100, 100, 100]"
    by (simp add: ex_flat_zchi2_def upt20)
  have "find_minima ex_env ex_flat_zchi2
     = Inr [10, 0, 17, 16, 15, 14, 13, 12, 8, 7, 6, 5, 4, 3, 2, 1, 18, 19]"
    unfolding x by (simp add: find_minima_def np_where_def take_idx_def upt20 argsort_flat)
  then show ?thesis unfolding x by simp
qed

text \<open>
  C4, amended. On a non-empty array \<open>find_minima\<close> returns each index whose value is at
  most both neighbours (a missing neighbour counting as satisfied) exactly once and no
  other index, in an order of non-decreasing value. The order of candidates of equal value
  is that of \<^verbatim>\<open>np.argsort\<close>, whose default kind is not stable; with the introsort of
  NumPy it is the order of the indices when there are at most 17 candidates. On
  \<open>[1,1,1,2,2,2]\<close> it returns \<open>[0,1,2,4,5]\<close>.
\<close>

theorem find_minima_local_minima:
  "(x \<noteq> [] \<longrightarrow>
      (\<exists>r. find_minima E x = Inr r \<and> distinct r
          \<and> set r = {k. k < length x \<and> local_min x k}
          \<and> sorted (map (\<lambda>k. x ! k) r)))
   \<and> (np_argsort E' = numpy_argsort \<and> x' \<noteq> []
        \<and> length (filter (local_min x') [0..<length x']) \<le> 17 \<longrightarrow>
      (\<exists>r. find_minima E' x' = Inr r
          \<and> sorted_wrt (\<lambda>p q. x' ! p < x' ! q \<or> (x' ! p = x' ! q \<and> p < q)) r))
   \<and> find_minima ex_env [1, 1, 1, 2, 2, 2] = Inr [0, 1, 2, 4, 5]"
proof (intro conjI impI)
  assume n: "x \<noteq> []"
  let ?ii = "filter (local_min x) [0..<length x]"
  let ?p = "argsort E (map (\<lambda>i. x ! i) ?ii)"
  let ?r = "map (\<lambda>j. ?ii ! j) ?p"
  have s: "sorts (map (\<lambda>i. x ! i) ?ii) ?p" by (rule sorts_argsort)
  have p: "set ?p = {0..<length ?ii}" "distinct ?p" using sorts_set[OF s] sorts_distinct[OF s] by simp_all
  have "inj_on (\<lambda>j. ?ii ! j) (set ?p)"
    unfolding p(1) by (rule inj_on_nth) simp_all
  then have d: "distinct ?r" using p(2) by (simp add: distinct_map)
  have "set ?r = (\<lambda>j. ?ii ! j) ` {0..<length ?ii}" using p(1) by simp
  also have "\<dots> = set ?ii" by (rule nth_image_all)
  also have "\<dots> = {k. k < length x \<and> local_min x k}" by auto
  finally have st: "set ?r = {k. k < length x \<and> local_min x k}" .
  have e: "map (\<lambda>k. x ! k) ?r = map (\<lambda>j. map (\<lambda>i. x ! i) ?ii ! j) ?p"
    using p(1) by auto
  have "sorted (map (\<lambda>j. map (\<lambda>i. x ! i) ?ii ! j) ?p)" using s by (simp add: sorts_def)
  then have so: "sorted (map (\<lambda>k. x ! k) ?r)" by (simp only: e)
  show "\<exists>r. find_minima E x = Inr r \<and> distinct r
          \<and> set r = {k. k < length x \<and> local_min x k}
          \<and> sorted (map (\<lambda>k. x ! k) r)"
    using find_minima_eq[OF n, of E] d st so by blast
next
  assume a: "np_argsort E' = numpy_argsort \<and> x' \<noteq> []
        \<and> length (filter (local_min x') [0..<length x']) \<le> 17"
  have "sorted_wrt (<) (filter (local_min x') [0..<length x'])"
    by (rule sorted_wrt_filter) (simp add: sorted_wrt_upt)
  then have "sorted_wrt (\<lambda>p q. x' ! p < x' ! q \<or> (x' ! p = x' ! q \<and> p < q))
      (sort_key (\<lambda>k. x' ! k) (filter (local_min x') [0..<length x']))"
    by (rule sort_key_lex)
  then show "\<exists>r. find_minima E' x' = Inr r
          \<and> sorted_wrt (\<lambda>p q. x' ! p < x' ! q \<or> (x' ! p = x' ! q \<and> p < q)) r"
    using find_minima_small[of E' x'] a by simp
next
  have e: "np_argsort ex_env = numpy_argsort" by (simp add: ex_env_def)
  show "find_minima ex_env [1, 1, 1, 2, 2, 2] = Inr [0, 1, 2, 4, 5]"
    by (simp add: find_minima_def np_where_def take_idx_def argsort_small[OF e] upt_rec)
qed

theorem find_minima_local_minima_witness:
  "[2, 5, 1, 1 :: real] \<noteq> [] \<and> find_minima ex_env [2, 5, 1, 1] = Inr [2, 3, 0]
   \<and> np_argsort ex_env = numpy_argsort
   \<and> length (filter (local_min [2, 5, 1, 1]) [0..<length [2, 5, 1, 1 :: real]]) \<le> 17
   \<and> (\<exists>r. find_minima ex_env [2, 5, 1, 1] = Inr r \<and> distinct r
          \<and> set r = {k. k < length [2, 5, 1, 1 :: real] \<and> local_min [2, 5, 1, 1] k}
          \<and> sorted (map (\<lambda>k. [2, 5, 1, 1 :: real] ! k) r)
          \<and> sorted_wrt (\<lambda>p q. [2, 5, 1, 1 :: real] ! p < [2, 5, 1, 1] ! q
                \<or> ([2, 5, 1, 1 :: real] ! p = [2, 5, 1, 1] ! q \<and> p < q)) r)"
proof -
  have e: "np_argsort ex_env = numpy_argsort" by (simp add: ex_env_def)
  have v: "find_minima ex_env [2, 5, 1, 1] = Inr [2, 3, 0]"
    by (simp add: find_minima_def np_where_def take_idx_def argsort_small[OF e] upt_rec)
  have l: "length (filter (local_min [2, 5, 1, 1]) [0..<length [2, 5, 1, 1 :: real]]) \<le> 17"
    by simp
  show ?thesis
    using find_minima_local_minima [of "[2, 5, 1, 1]" ex_env ex_env "[2, 5, 1, 1]"] v e l
    by auto
qed

subsection \<open>minfit\<close>

text \<open>Through three points of different abscissae the least-squares parabola is the interpolating one.\<close>

lemma polyfit_exact_three:
  assumes "x0 \<noteq> x1" "x1 \<noteq> x2" "x0 \<noteq> x2"
  shows "polyfit_exact [x0, x1, x2] [y0, y1, y2] =
     (let d01 = (y1 - y0) / (x1 - x0);
          d12 = (y2 - y1) / (x2 - x1);
          a = (d12 - d01) / (x2 - x0);
          b = d01 - a * (x0 + x1);
          c = y0 - a * x0 ^ 2 - b * x0
      in Inr (a, b, c))"
proof -
  define p q r where "p = x1 - x0" and "q = x2 - x1" and "r = x2 - x0"
  have nz: "p \<noteq> 0" "q \<noteq> 0" "r \<noteq> 0" using assms by (simp_all add: p_def q_def r_def)
  define S where "S = psum [x0, x1, x2]"
  define T where "T = pmom [x0, x1, x2] [y0, y1, y2]"
  define D where "D = det3 (S 4, S 3, S 2) (S 3, S 2, S 1) (S 2, S 1, S 0)"
  have S: "S k = x0 ^ k + x1 ^ k + x2 ^ k" for k by (simp add: S_def psum_def)
  have T: "T k = x0 ^ k * y0 + x1 ^ k * y1 + x2 ^ k * y2" for k by (simp add: T_def pmom_def)
  have D: "D = (p * q * r) ^ 2"
    unfolding D_def det3_def S p_def q_def r_def by (simp add: power2_eq_square power4_eq_xxxx power3_eq_cube) algebra
  have Dnz: "D \<noteq> 0" using nz D by simp
  define a where "a = ((y2 - y1) / q - (y1 - y0) / p) / r"
  define b where "b = (y1 - y0) / p - a * (x0 + x1)"
  define c where "c = y0 - a * x0 ^ 2 - b * x0"
  have a': "a * (p * q * r) = (y2 - y1) * p - (y1 - y0) * q"
    using nz by (simp add: a_def field_simps)
  have b': "b * p = (y1 - y0) - a * (x0 + x1) * p" using nz by (simp add: b_def field_simps)
  have through: "a * x0 ^ 2 + b * x0 + c = y0" "a * x1 ^ 2 + b * x1 + c = y1" "a * x2 ^ 2 + b * x2 + c = y2"
  proof -
    show 0: "a * x0 ^ 2 + b * x0 + c = y0" by (simp add: c_def)
    have "(a * x1 ^ 2 + b * x1 + c - y1) * p = 0"
      using b' unfolding c_def p_def by algebra
    then show 1: "a * x1 ^ 2 + b * x1 + c = y1" using nz by simp
    have "(a * x2 ^ 2 + b * x2 + c - y2) * (p * q * r) = 0"
      using a' b' unfolding c_def p_def q_def r_def by algebra
    then show "a * x2 ^ 2 + b * x2 + c = y2" using nz by simp
  qed
  have Ta: "T k = a * S (k + 2) + b * S (k + 1) + c * S k" for k
    unfolding S T through[symmetric] by (simp add: algebra_simps power_add power2_eq_square)
  have na: "det3 (T 2, S 3, S 2) (T 1, S 2, S 1) (T 0, S 1, S 0) = a * D"
    unfolding D_def det3_def Ta[of 2] Ta[of 1] Ta[of 0] by (simp add: numeral_eq_Suc algebra_simps)
  have nb: "det3 (S 4, T 2, S 2) (S 3, T 1, S 1) (S 2, T 0, S 0) = b * D"
    unfolding D_def det3_def Ta[of 2] Ta[of 1] Ta[of 0] by (simp add: numeral_eq_Suc algebra_simps)
  have nc: "det3 (S 4, S 3, T 2) (S 3, S 2, T 1) (S 2, S 1, T 0) = c * D"
    unfolding D_def det3_def Ta[of 2] Ta[of 1] Ta[of 0] by (simp add: numeral_eq_Suc algebra_simps)
  have rd: "remdups [x0, x1, x2] = [x0, x1, x2]" using assms by simp
  have "polyfit_exact [x0, x1, x2] [y0, y1, y2] = Inr (a, b, c)"
    unfolding polyfit_exact_def Let_def rd S_def[symmetric] T_def[symmetric] D_def[symmetric]
    using Dnz na nb nc by simp
  then show ?thesis by (simp add: a_def b_def c_def p_def q_def r_def Let_def)
qed


lemma or_and_self: "(w OR b) AND b = (b::nat)"
  by (simp add: bit_eq_iff bit_and_iff bit_or_iff) blast

text \<open>
  C2, as stated, fails: the three points \<open>(0,10), (1,5), (2,2)\<close> lie on
  \<open>(x - 3)\<^sup>2 + 1\<close>, whose vertex 3 is beyond the largest abscissa, and \<open>minfit\<close>
  returns the fitted values \<open>(3, 1, 1)\<close> with the flag, not \<open>(-1, -1, -1)\<close>.
\<close>

theorem minfit_outside_range_not_sentinel:
  "polyfit ex_env [0, 1, 2] [10, 5, 2] = Inr (1, - 6, 10)
   \<and> Max (set [0, 1, 2 :: real]) < 3
   \<and> minfit ex_env [0, 1, 2] [10, 5, 2] = Inr (3, 1, 1, 1024)
   \<and> minfit ex_env [0, 1, 2] [10, 5, 2] \<noteq> Inr (- 1, - 1, - 1, BAD_MINFIT ex_env)"
  by (simp add: minfit_def ex_env_def polyfit_exact_three Let_def)

text \<open>
  C2, amended. On fewer than three points \<open>minfit\<close> returns \<open>(-1, -1, -1)\<close> with the
  bad-fit flag. On three or more points whose fit has a non-zero leading coefficient and a
  vertex at or beyond the least or the greatest abscissa, it returns the fitted vertex,
  width and minimum value, with the bad-fit flag set.
\<close>

theorem minfit_bad_fit:
  "(length x1 < 3 \<longrightarrow> minfit E x1 y1 = Inr (- 1, - 1, - 1, BAD_MINFIT E))
   \<and> (3 \<le> length x \<and> polyfit E x y = Inr (a, b, c) \<and> a \<noteq> 0
        \<and> (- b / (2 * a) \<le> Min (set x) \<or> Max (set x) \<le> - b / (2 * a))
      \<longrightarrow> (\<exists>w. minfit E x y = Inr (- b / (2 * a), 1 / sqrt \<bar>a\<bar>, - (b ^ 2) / (4 * a) + c, w)
               \<and> w AND BAD_MINFIT E = BAD_MINFIT E))"
  by (auto simp: minfit_def Let_def or_and_self)

theorem minfit_bad_fit_witness:
  "length [0, 1 :: real] < 3
   \<and> minfit ex_env [0, 1] [4, 1] = Inr (- 1, - 1, - 1, BAD_MINFIT ex_env)
   \<and> 3 \<le> length [0, 1, 2 :: real] \<and> polyfit ex_env [0, 1, 2] [10, 5, 2] = Inr (1, - 6, 10)
   \<and> (1 :: real) \<noteq> 0 \<and> Max (set [0, 1, 2 :: real]) \<le> - (- 6) / (2 * 1)
   \<and> (\<exists>w. minfit ex_env [0, 1, 2] [10, 5, 2]
              = Inr (- (- 6) / (2 * 1), 1 / sqrt \<bar>1\<bar>, - ((- 6) ^ 2) / (4 * 1) + 10, w)
          \<and> w AND BAD_MINFIT ex_env = BAD_MINFIT ex_env)"
proof -
  have p: "polyfit ex_env [0, 1, 2] [10, 5, 2] = Inr (1, - 6, 10)"
    by (simp add: ex_env_def polyfit_exact_three Let_def)
  have m: "Max (set [0, 1, 2 :: real]) \<le> - (- 6) / (2 * 1)" by simp
  show ?thesis
    using minfit_bad_fit [of "[0, 1]" ex_env "[4, 1]" "[0, 1, 2]" "[10, 5, 2]" 1 "- 6" 10] p m
    by simp
qed

subsection \<open>Spectrum\<close>

text \<open>
  C10. Constructing a Spectrum with a resolution matrix whose row count is the length of
  \<open>ivar\<close> writes into the caller's \<open>ivar\<close> array: afterwards each entry whose row sum is
  below \<open>min_resolution_integral\<close> is zero and the others are as before; no other array
  of the store is changed; and the object, which is built when \<open>wave\<close> has at least two
  entries, holds the very arrays it was given as \<open>wave\<close>, \<open>flux\<close> and \<open>ivar\<close>.
\<close>

theorem Spectrum_init_masks_ivar:
  assumes len: "length (R_rows r) = length (h ivar)"
    and out: "Spectrum_init E h wave flux ivar (Some r) Rcsr = (h', res)"
  shows "length (h' ivar) = length (h ivar)
    \<and> (\<forall>k < length (h ivar). h' ivar ! k =
          (if sum_list (R_rows r ! k) < min_resolution_integral E then 0 else h ivar ! k))
    \<and> (\<forall>a. a \<noteq> ivar \<longrightarrow> h' a = h a)
    \<and> (2 \<le> length (h wave) \<longrightarrow>
          (\<exists>s. res = Inr s \<and> sp_ivar s = ivar \<and> sp_wave s = wave \<and> sp_flux s = flux))"
proof -
  let ?w = "map (\<lambda>row. sum_list row < min_resolution_integral E) (R_rows r)"
  let ?a = "map2 (\<lambda>m v. if m then 0 else v) ?w (h ivar)"
  have m: "mask_assign_zero ?w (h ivar) = Inr ?a"
    using len by (simp add: mask_assign_zero_def)
  have la: "length ?a = length (h ivar)" using len by simp
  have h': "h' = h(ivar := ?a)"
    using out m by (simp add: Spectrum_init_def Let_def split: if_splits)
  have res: "2 \<le> length (h wave) \<Longrightarrow>
      \<exists>s. res = Inr s \<and> sp_ivar s = ivar \<and> sp_wave s = wave \<and> sp_flux s = flux"
    using out m la by (auto simp: Spectrum_init_def Let_def split: if_splits)
  have nth: "\<forall>k < length (h ivar). ?a ! k =
          (if sum_list (R_rows r ! k) < min_resolution_integral E then 0 else h ivar ! k)"
    using len by simp
  show ?thesis using h' la nth res by simp
qed

theorem Spectrum_init_masks_ivar_witness:
  "length (R_rows ex_R) = length (ex_store 2)
   \<and> fst (Spectrum_init ex_env ex_store 0 1 2 (Some ex_R) None) = ex_store (2 := [0, 2, 4])
   \<and> fst (Spectrum_init ex_env ex_store 0 1 2 (Some ex_R) None) 0 = ex_store 0
   \<and> fst (Spectrum_init ex_env ex_store 0 1 2 (Some ex_R) None) 1 = ex_store 1
   \<and> (\<exists>s. snd (Spectrum_init ex_env ex_store 0 1 2 (Some ex_R) None) = Inr s
          \<and> sp_ivar s = 2 \<and> sp_wave s = 0 \<and> sp_flux s = 1)"
proof -
  let ?s = "\<lparr> sp_nwave = 3, sp_wave = 0, sp_flux = 1, sp_ivar = 2, sp_R = Some ex_R,
               sp_Rcsr = None, sp_mpshared = False,
               sp_wavehash = (3, 3600, 3601, 3601, 3602, Some 3) \<rparr>"
  have o: "Spectrum_init ex_env ex_store 0 1 2 (Some ex_R) None
         = (ex_store (2 := [0, 2, 4]), Inr ?s)"
    by (simp add: Spectrum_init_def mask_assign_zero_def ex_env_def ex_store_def ex_R_def Let_def)
  have len: "length (R_rows ex_R) = length (ex_store 2)" by (simp add: ex_R_def ex_store_def)
  have w: "2 \<le> length (ex_store 0)" by (simp add: ex_store_def)
  show ?thesis using Spectrum_init_masks_ivar [OF len o] len w o by simp
qed

subsection \<open>The refinement loop\<close>

lemma get_dv_NaN: "get_dv z zref = NaN \<longleftrightarrow> z = - 1 \<and> zref = - 1"
  by (auto simp: get_dv_def fdiv_def speed_of_light_def Let_def)

lemma not_closer_iff: "\<not> closer E z zref \<longleftrightarrow> far E z zref \<or> (z = - 1 \<and> zref = - 1)"
proof (cases "get_dv z zref")
  case (Finite q)
  then have "\<not> (z = - 1 \<and> zref = - 1)" using get_dv_NaN[of z zref] by auto
  then show ?thesis using Finite by (auto simp: closer_def far_def)
next
  case PosInf
  then show ?thesis by (simp add: closer_def far_def)
next
  case NegInf
  then show ?thesis by (simp add: closer_def far_def)
next
  case NaN
  then show ?thesis using get_dv_NaN[of z zref] by (simp add: closer_def far_def)
qed

lemma too_close_iff: "too_close E z results \<longleftrightarrow> (\<exists>r \<in> set results. closer E z (res_z r))"
  by (auto simp: too_close_def list_ex_iff)

lemma loop_ConsE:
  assumes "fitz_loop E zc rs t n arch (imin # rest) results = Inr out"
  obtains (stop) "int (length results) = n" "out = results"
    | (skip) "int (length results) \<noteq> n" "fitz_loop E zc rs t n arch rest results = Inr out"
    | (accept) r where "int (length results) \<noteq> n" "\<not> too_close E (res_z r) results"
        "refine E zc rs t imin = Inr r" "arch = None"
        "fitz_loop E zc rs t n arch rest (results @ [r]) = Inr out"
  using assms
  by (auto simp: call_get_best_archetype_def get_best_archetype_nparams_def
        split: if_splits sum.splits option.splits prod.splits)


lemma loop_separated:
  "fitz_loop E zc rs t n arch cands results = Inr out
     \<Longrightarrow> sorted_wrt (\<lambda>zref z. \<not> closer E z zref) (map res_z results)
     \<Longrightarrow> sorted_wrt (\<lambda>zref z. \<not> closer E z zref) (map res_z out)"
proof (induction cands arbitrary: results)
  case Nil
  then show ?case by simp
next
  case (Cons imin rest)
  from Cons.prems(1) show ?case
  proof (cases rule: loop_ConsE)
    case stop
    then show ?thesis using Cons.prems(2) by simp
  next
    case skip
    then show ?thesis using Cons.IH Cons.prems(2) by blast
  next
    case (accept r)
    have "sorted_wrt (\<lambda>zref z. \<not> closer E z zref) (map res_z (results @ [r]))"
      using accept(2) Cons.prems(2) by (auto simp: sorted_wrt_append too_close_iff)
    then show ?thesis using Cons.IH accept(5) by blast
  qed
qed

lemma loop_archetype:
  "fitz_loop E zc rs t n (Some a) cands results = Inr out \<Longrightarrow> out = results"
proof (induction cands arbitrary: results)
  case Nil
  then show ?case by simp
next
  case (Cons imin rest)
  from Cons.prems(1) show ?case
  proof (cases rule: loop_ConsE)
    case stop
    then show ?thesis by simp
  next
    case skip
    then show ?thesis using Cons.IH by blast
  next
    case (accept r)
    then show ?thesis by simp
  qed
qed

lemma to_table_InrD:
  "to_table rs = Inr tab \<Longrightarrow>
     tab = \<lparr> tab_z = map res_z rs, tab_zerr = map res_zerr rs,
             tab_zwarn = map res_zwarn rs, tab_chi2 = map res_chi2 rs,
             tab_zz = map res_zz rs, tab_zzchi2 = map res_zzchi2 rs,
             tab_coeff = map res_coeff rs, tab_fulltype = map res_fulltype rs,
             tab_npixels = map res_npixels rs \<rparr>"
  by (auto simp: to_table_def vstack_def split: if_splits sum.splits)

lemma fitz_InrD:
  assumes "fitz E h zc rs sp t n arch = Inr tab"
  shows "\<exists>cands results. find_minima E zc = Inr cands
      \<and> fitz_loop E zc rs t n arch cands [] = Inr results \<and> results \<noteq> []
      \<and> to_table (map (\<lambda>r. r\<lparr>res_npixels := count_npixels h sp\<rparr>)
            (map (\<lambda>i. results ! i) (argsort E (map res_chi2 results)))) = Inr tab"
  using assms
  by (auto simp: fitz_def Let_def length_argsort argsort_eq_Nil split: if_splits sum.splits)

text \<open>
  The columns of a returned table: the results of the loop in the order \<open>p\<close> that
  \<^verbatim>\<open>np.argsort\<close> gives for their chi-squared.
\<close>

lemma fitz_columns:
  assumes "fitz E h zc rs sp t n arch = Inr tab"
  shows "\<exists>cands results p. find_minima E zc = Inr cands
      \<and> fitz_loop E zc rs t n arch cands [] = Inr results \<and> results \<noteq> []
      \<and> sorts (map res_chi2 results) p
      \<and> tab_z tab = map (\<lambda>i. res_z (results ! i)) p
      \<and> tab_chi2 tab = map (\<lambda>i. res_chi2 (results ! i)) p
      \<and> tab_coeff tab = map (\<lambda>i. res_coeff (results ! i)) p
      \<and> tab_npixels tab = replicate (length results) (count_npixels h sp)"
proof -
  obtain cands and results :: "result list" where r: "find_minima E zc = Inr cands"
      "fitz_loop E zc rs t n arch cands [] = Inr results" "results \<noteq> []"
      "to_table (map (\<lambda>r. r\<lparr>res_npixels := count_npixels h sp\<rparr>)
            (map (\<lambda>i. results ! i) (argsort E (map res_chi2 results)))) = Inr tab"
    using fitz_InrD[OF assms] by blast
  let ?p = "argsort E (map res_chi2 results)"
  have s: "sorts (map res_chi2 results) ?p" by (rule sorts_argsort)
  have l: "length ?p = length results" using sorts_length[OF s] by simp
  show ?thesis
    using r(1,2,3) s l to_table_InrD[OF r(4)]
    by (intro exI[of _ cands] exI[of _ results] exI[of _ ?p])
       (simp add: o_def map_replicate_const)
qed

text \<open>What the contract of the sort gives for such an order.\<close>

lemma sorts_chi2:
  assumes "sorts (map res_chi2 results) p"
  shows "sorted (map (\<lambda>i. res_chi2 (results ! i)) p)"
proof -
  have e: "map (\<lambda>i. res_chi2 (results ! i)) p = map (\<lambda>i. map res_chi2 results ! i) p"
    using sorts_set[OF assms] by auto
  have "sorted (map (\<lambda>i. map res_chi2 results ! i) p)" using assms by (simp add: sorts_def)
  then show ?thesis by (simp only: e)
qed

subsection \<open>The examples, evaluated\<close>

lemma argsort_ex:
  "length v \<le> 17 \<Longrightarrow> argsort ex_env v = sort_key (\<lambda>i. v ! i) [0..<length v]"
  "length v \<le> 17 \<Longrightarrow> argsort ex_env_two v = sort_key (\<lambda>i. v ! i) [0..<length v]"
  "length v \<le> 17 \<Longrightarrow> argsort ex_env_deep v = sort_key (\<lambda>i. v ! i) [0..<length v]"
  "length v \<le> 17 \<Longrightarrow> argsort ex_env_cut v = sort_key (\<lambda>i. v ! i) [0..<length v]"
  by (rule argsort_small; simp add: ex_env_two_def ex_env_deep_def ex_env_cut_def ex_env_def)+

lemma upt15: "[0..<15] = [0, 1, 2, 3, 4, 5, 6, 7, 8, 9, 10, 11, 12, 13, 14]"
  by (simp add: upt_rec)

lemma linspace_1_2:
  "linspace 1 2 15 = [1, 15 / 14, 16 / 14, 17 / 14, 18 / 14, 19 / 14, 20 / 14, 21 / 14,
     22 / 14, 23 / 14, 24 / 14, 25 / 14, 26 / 14, 27 / 14, 2]"
  by (simp add: linspace_def upt15)

lemma linspace_first: "linspace a b 15 ! 0 = a"
  by (simp add: linspace_def)

lemma linspace_last: "last (linspace a b 15) = b"
  by (simp add: linspace_def last_map field_simps)

lemma calc_batch_on:
  "(\<And>z. z \<in> set zs \<Longrightarrow> f z = Inr (g z, c z)) \<Longrightarrow> calc_batch f zs = Inr (map g zs, map c zs)"
  by (induction zs) simp_all

lemma edge_policy_inside:
  assumes "\<not> (zmin < zz ! 0 \<or> zmin > last zz)" "2 \<le> length rs"
  shows "edge_policy E rs zz zzchi2 zmin sigma chi2min zwarn coeff
    = Inr \<lparr> res_z = zmin, res_zerr = sigma,
             res_zwarn = (if zmin < rs ! 1 \<or> zmin > rs ! (length rs - 2)
                          then (zwarn OR Z_FITLIMIT E) OR Z_FITLIMIT E else zwarn),
             res_chi2 = chi2min, res_zz = zz, res_zzchi2 = zzchi2, res_coeff = coeff,
             res_fulltype = None, res_npixels = 0 \<rparr>"
  using assms by (simp add: edge_policy_def Let_def)

text \<open>The scan that falls towards its lower edge.\<close>

lemma find_minima_edge: "find_minima ex_env [2, 5, 10] = Inr [0]"
  by (simp add: find_minima_def np_where_def take_idx_def argsort_ex upt_rec)

lemma fine_grid_edge: "fine_grid [2, 5, 10] [1, 2, 3] 0 = linspace 1 2 15"
  by (simp add: fine_grid_def)

lemma calc_batch_ex: "calc_batch (zchi2_at ex_env) zs = Inr (map (\<lambda>z. z ^ 2 + 1) zs, map (\<lambda>z. [1]) zs)"
  by (rule calc_batch_on) (simp add: ex_env_def)

lemma parabola_fit_edge:
  "parabola_fit ex_env (linspace 1 2 15) (map (\<lambda>z. z ^ 2 + 1) (linspace 1 2 15))
     = Inr (0, 1, 1, 1024)"
  by (simp add: linspace_1_2 parabola_fit_def argmin_def slice_def minfit_def ex_env_def
        polyfit_exact_three Let_def power2_eq_square)

lemma eval_zmin_edge: "eval_zmin ex_env [1, 2, 3] ex_tmpl 0 1024 = Inr ([1], 1024)"
  by (simp add: eval_zmin_def ex_env_def)

lemma edge_policy_edge:
  "edge_policy ex_env [1, 2, 3] (linspace 1 2 15) (map (\<lambda>z. z ^ 2 + 1) (linspace 1 2 15))
       0 1 1 1024 [1]
   = Inr \<lparr> res_z = 1, res_zerr = 1, res_zwarn = 1056, res_chi2 = 2,
            res_zz = linspace 1 2 15, res_zzchi2 = map (\<lambda>z. z ^ 2 + 1) (linspace 1 2 15),
            res_coeff = [1], res_fulltype = None, res_npixels = 0 \<rparr>"
  by (simp add: linspace_1_2 edge_policy_def np_where_def ex_env_def Let_def power2_eq_square
        upt15)

lemma refine_edge:
  "refine ex_env [2, 5, 10] [1, 2, 3] ex_tmpl 0
   = Inr \<lparr> res_z = 1, res_zerr = 1, res_zwarn = 1056, res_chi2 = 2,
            res_zz = linspace 1 2 15, res_zzchi2 = map (\<lambda>z. z ^ 2 + 1) (linspace 1 2 15),
            res_coeff = [1], res_fulltype = None, res_npixels = 0 \<rparr>"
  by (simp add: refine_def fine_grid_edge calc_batch_ex parabola_fit_edge eval_zmin_edge
        edge_policy_edge Let_def)

lemma fitz_loop_edge:
  "fitz_loop ex_env [2, 5, 10] [1, 2, 3] ex_tmpl 3 None [0] []
   = Inr [\<lparr> res_z = 1, res_zerr = 1, res_zwarn = 1056, res_chi2 = 2,
            res_zz = linspace 1 2 15, res_zzchi2 = map (\<lambda>z. z ^ 2 + 1) (linspace 1 2 15),
            res_coeff = [1], res_fulltype = None, res_npixels = 0 \<rparr>]"
  by (simp add: refine_edge too_close_def)

lemma count_npixels_after: "count_npixels (ex_store (2 := [0, 2, 4])) [ex_spectrum] = 2"
  by (simp add: count_npixels_def ex_spectrum_def)

lemma count_npixels_before: "count_npixels ex_store [ex_spectrum] = 3"
  by (simp add: count_npixels_def ex_spectrum_def ex_store_def)

lemma fitz_edge:
  "fitz ex_env (ex_store (2 := [0, 2, 4])) [2, 5, 10] [1, 2, 3] [ex_spectrum] ex_tmpl 3 None
   = Inr ex_edge_table"
proof -
  have s: "spectral_data ex_env = Inr ()" by (simp add: ex_env_def)
  show ?thesis
    by (simp add: fitz_def find_minima_edge fitz_loop_edge s count_npixels_after argsort_ex
          to_table_def vstack_def Let_def ex_edge_table_def del: fitz_loop.simps)
qed

text \<open>The same scan with the template that cannot be rebinned below redshift 1/2.\<close>

lemma calc_batch_limited:
  "calc_batch (zchi2_at ex_env_limited) (linspace 1 2 15)
     = Inr (map (\<lambda>z. z ^ 2 + 1) (linspace 1 2 15), map (\<lambda>z. [1]) (linspace 1 2 15))"
  by (rule calc_batch_on) (auto simp: ex_env_limited_def linspace_1_2)

lemma parabola_fit_limited:
  "parabola_fit ex_env_limited (linspace 1 2 15) (map (\<lambda>z. z ^ 2 + 1) (linspace 1 2 15))
     = Inr (0, 1, 1, 1024)"
  by (simp add: linspace_1_2 parabola_fit_def argmin_def slice_def minfit_def ex_env_limited_def
        ex_env_def polyfit_exact_three Let_def power2_eq_square)

text \<open>The curve with two wells.\<close>

lemma ex_two_zchi2_eq: "ex_two_zchi2 = [1, 20000027889 / 10000000000, 2]"
  by (simp add: ex_two_zchi2_def ex_two_redshifts_def two_wells_def power2_eq_square)

lemma length_ex_two: "length ex_two_zchi2 = 3" "length ex_two_redshifts = 3"
  by (simp_all add: ex_two_zchi2_def ex_two_redshifts_def)

lemma find_minima_two: "find_minima ex_env_two ex_two_zchi2 = Inr [0, 2]"
  by (simp add: ex_two_zchi2_eq find_minima_def np_where_def take_idx_def argsort_ex upt_rec)

lemma fine_grid_two_0: "fine_grid ex_two_zchi2 ex_two_redshifts 0 = linspace 0 (167 / 100000) 15"
  by (simp add: fine_grid_def ex_two_zchi2_eq ex_two_redshifts_def)

lemma fine_grid_two_2:
  "fine_grid ex_two_zchi2 ex_two_redshifts 2 = linspace (167 / 100000) (167 / 50000) 15"
  by (simp add: fine_grid_def ex_two_zchi2_eq ex_two_redshifts_def)

lemma calc_batch_two:
  "calc_batch (zchi2_at ex_env_two) zs = Inr (map two_wells zs, map (\<lambda>z. [1]) zs)"
  by (rule calc_batch_on) (simp add: ex_env_two_def)

lemma parabola_fit_two_0:
  "parabola_fit ex_env_two (linspace 0 (167 / 100000) 15)
     (map two_wells (linspace 0 (167 / 100000) 15)) = Inr (0, 1, 1, 1024)"
  by (simp add: linspace_def upt15 two_wells_def parabola_fit_def argmin_def slice_def minfit_def
        ex_env_two_def ex_env_def polyfit_exact_three Let_def power2_eq_square)

lemma parabola_fit_two_2:
  "parabola_fit ex_env_two (linspace (167 / 100000) (167 / 50000) 15)
     (map two_wells (linspace (167 / 100000) (167 / 50000) 15))
   = Inr (167 / 50000, 1, 2, 1024)"
  by (simp add: linspace_def upt15 two_wells_def parabola_fit_def argmin_def slice_def minfit_def
        ex_env_two_def ex_env_def polyfit_exact_three Let_def power2_eq_square)

lemma eval_zmin_two: "eval_zmin ex_env_two rs ex_tmpl z w = Inr ([1], w)"
  by (simp add: eval_zmin_def ex_env_two_def)

lemma edge_policy_two_0:
  "edge_policy ex_env_two ex_two_redshifts (linspace 0 (167 / 100000) 15)
     (map two_wells (linspace 0 (167 / 100000) 15)) 0 1 1 1024 [1] = Inr ex_two_r1"
  unfolding ex_two_r1_def
  by (subst edge_policy_inside)
     (simp_all add: linspace_first linspace_last ex_two_redshifts_def ex_env_two_def ex_env_def)

lemma edge_policy_two_2:
  "edge_policy ex_env_two ex_two_redshifts (linspace (167 / 100000) (167 / 50000) 15)
     (map two_wells (linspace (167 / 100000) (167 / 50000) 15)) (167 / 50000) 1 2 1024 [1]
   = Inr ex_two_r2"
  unfolding ex_two_r2_def
  by (subst edge_policy_inside)
     (simp_all add: linspace_first linspace_last ex_two_redshifts_def ex_env_two_def ex_env_def)

lemma refine_two_0: "refine ex_env_two ex_two_zchi2 ex_two_redshifts ex_tmpl 0 = Inr ex_two_r1"
  by (simp add: refine_def length_ex_two fine_grid_two_0 calc_batch_two parabola_fit_two_0
        eval_zmin_two edge_policy_two_0 Let_def)

lemma refine_two_2: "refine ex_env_two ex_two_zchi2 ex_two_redshifts ex_tmpl 2 = Inr ex_two_r2"
  by (simp add: refine_def length_ex_two fine_grid_two_2 calc_batch_two parabola_fit_two_2
        eval_zmin_two edge_policy_two_2 Let_def)

lemma get_dv_two:
  "get_dv (167 / 50000) 0 = Finite (25032670243 / 25000000)"
  "get_dv 0 (167 / 50000) = Finite (- (25032670243 / 25083500))"
  by (simp_all add: get_dv_def fdiv_def speed_of_light_def Let_def)

lemma far_two: "far ex_env_two (167 / 50000) 0" "\<not> far ex_env_two 0 (167 / 50000)"
  by (simp_all add: far_def get_dv_two ex_env_two_def ex_env_def)

lemma closer_two: "\<not> closer ex_env_two (167 / 50000) 0" "closer ex_env_two 0 (167 / 50000)"
  by (simp_all add: closer_def get_dv_two ex_env_two_def ex_env_def)

lemma fitz_loop_two:
  "fitz_loop ex_env_two ex_two_zchi2 ex_two_redshifts ex_tmpl 3 None [0, 2] []
   = Inr [ex_two_r1, ex_two_r2]"
proof -
  have z1: "res_z ex_two_r1 = 0" and z2: "res_z ex_two_r2 = 167 / 50000"
    by (simp_all add: ex_two_r1_def ex_two_r2_def)
  have r2: "ex_two_redshifts ! 2 = 167 / 50000" "ex_two_redshifts ! 0 = 0"
    by (simp_all add: ex_two_redshifts_def)
  have e: "\<not> too_close ex_env_two x []" for x by (simp add: too_close_def)
  have c: "\<not> too_close ex_env_two (167 / 50000) [ex_two_r1]"
    using closer_two(1) by (simp add: too_close_iff z1)
  show ?thesis
    by (simp add: length_ex_two refine_two_0 refine_two_2 c z1 z2 r2 e)
qed

lemma fitz_two:
  "fitz ex_env_two ex_store ex_two_zchi2 ex_two_redshifts [ex_spectrum] ex_tmpl 3 None
   = Inr ex_two_table"
proof -
  have s: "spectral_data ex_env_two = Inr ()" by (simp add: ex_env_two_def ex_env_def)
  have a: "argsort ex_env_two [res_chi2 ex_two_r1, res_chi2 ex_two_r2] = [0, 1]"
    by (simp add: argsort_ex ex_two_r1_def ex_two_r2_def upt_rec)
  have t: "to_table [ex_two_r1 \<lparr>res_npixels := 3\<rparr>, ex_two_r2 \<lparr>res_npixels := 3\<rparr>]
         = Inr ex_two_table"
    by (simp add: to_table_def vstack_def ex_two_table_def) (simp add: ex_two_r1_def ex_two_r2_def)
  show ?thesis
    by (simp add: fitz_def length_ex_two find_minima_two fitz_loop_two s count_npixels_before a t
          Let_def del: fitz_loop.simps)
qed




text \<open>The scan around redshift 0, with a result held at redshift 0.0005.\<close>

lemma linspace_near:
  "linspace (- (1 / 100)) (1 / 50) 15 = [- (14 / 1400), - (11 / 1400), - (8 / 1400),
     - (5 / 1400), - (2 / 1400), 1 / 1400, 4 / 1400, 7 / 1400, 10 / 1400, 13 / 1400, 16 / 1400,
     19 / 1400, 22 / 1400, 25 / 1400, 28 / 1400]"
  by (simp add: linspace_def upt15)

lemma length_ex_near: "length ex_near_zchi2 = 3" "length ex_near_redshifts = 3"
  by (simp_all add: ex_near_zchi2_def ex_near_redshifts_def)

lemma fine_grid_near:
  "fine_grid ex_near_zchi2 ex_near_redshifts (Suc 0) = linspace (- (1 / 100)) (1 / 50) 15"
  by (simp add: fine_grid_def ex_near_zchi2_def ex_near_redshifts_def)

lemma parabola_fit_near:
  "parabola_fit ex_env (linspace (- (1 / 100)) (1 / 50) 15)
     (map (\<lambda>z. z ^ 2 + 1) (linspace (- (1 / 100)) (1 / 50) 15)) = Inr (0, 1, 1, 0)"
  by (simp add: linspace_near parabola_fit_def argmin_def slice_def minfit_def ex_env_def
        polyfit_exact_three Let_def power2_eq_square)

lemma edge_policy_near:
  "edge_policy ex_env ex_near_redshifts (linspace (- (1 / 100)) (1 / 50) 15)
     (map (\<lambda>z. z ^ 2 + 1) (linspace (- (1 / 100)) (1 / 50) 15)) 0 1 1 0 [1]
   = Inr ex_near_refined"
  unfolding ex_near_refined_def
  by (subst edge_policy_inside)
     (simp_all add: linspace_first linspace_last ex_near_redshifts_def ex_env_def)

lemma eval_zmin_ex: "eval_zmin ex_env rs ex_tmpl z w = Inr ([1], w)"
  by (simp add: eval_zmin_def ex_env_def)

lemma refine_near: "refine ex_env ex_near_zchi2 ex_near_redshifts ex_tmpl 1 = Inr ex_near_refined"
  by (simp add: refine_def length_ex_near fine_grid_near calc_batch_ex parabola_fit_near
        eval_zmin_ex edge_policy_near Let_def)

lemma closer_near:
  "\<not> closer ex_env (1 / 250) (1 / 2000)" "closer ex_env 0 (1 / 2000)"
  by (simp_all add: closer_def get_dv_def fdiv_def speed_of_light_def ex_env_def Let_def)

text \<open>The scan with the template that cannot be rebinned above redshift 0.0015.\<close>

lemma length_ex_cut: "length ex_cut_zchi2 = 3" "length ex_cut_redshifts = 3"
  by (simp_all add: ex_cut_zchi2_def ex_cut_redshifts_def)

lemma find_minima_cut: "find_minima ex_env_cut ex_cut_zchi2 = Inr [0, 2]"
  by (simp add: ex_cut_zchi2_def find_minima_def np_where_def take_idx_def argsort_ex upt_rec)

lemma fine_grid_cut_0: "fine_grid ex_cut_zchi2 ex_cut_redshifts 0 = linspace 0 (1 / 1000) 15"
  by (simp add: fine_grid_def ex_cut_zchi2_def ex_cut_redshifts_def)

lemma calc_batch_cut_0:
  "calc_batch (zchi2_at ex_env_cut) (linspace 0 (1 / 1000) 15)
     = Inr (map (\<lambda>z. z ^ 2 + 1) (linspace 0 (1 / 1000) 15),
            map (\<lambda>z. [1]) (linspace 0 (1 / 1000) 15))"
  by (rule calc_batch_on) (auto simp: ex_env_cut_def linspace_def upt15)

lemma parabola_fit_cut_0:
  "parabola_fit ex_env_cut (linspace 0 (1 / 1000) 15)
     (map (\<lambda>z. z ^ 2 + 1) (linspace 0 (1 / 1000) 15)) = Inr (0, 1, 1, 1024)"
  by (simp add: linspace_def upt15 parabola_fit_def argmin_def slice_def minfit_def
        ex_env_cut_def ex_env_def polyfit_exact_three Let_def power2_eq_square)

lemma eval_zmin_cut_0: "eval_zmin ex_env_cut rs ex_tmpl 0 w = Inr ([1], w)"
  by (simp add: eval_zmin_def ex_env_cut_def)

lemma edge_policy_cut_0:
  "edge_policy ex_env_cut ex_cut_redshifts (linspace 0 (1 / 1000) 15)
     (map (\<lambda>z. z ^ 2 + 1) (linspace 0 (1 / 1000) 15)) 0 1 1 1024 [1] = Inr ex_cut_r"
  unfolding ex_cut_r_def
  by (subst edge_policy_inside)
     (simp_all add: linspace_first linspace_last ex_cut_redshifts_def ex_env_cut_def ex_env_def)

lemma refine_cut_0: "refine ex_env_cut ex_cut_zchi2 ex_cut_redshifts ex_tmpl 0 = Inr ex_cut_r"
  by (simp add: refine_def length_ex_cut fine_grid_cut_0 calc_batch_cut_0 parabola_fit_cut_0
        eval_zmin_cut_0 edge_policy_cut_0 Let_def)

lemma refine_cut_2: "refine ex_env_cut ex_cut_zchi2 ex_cut_redshifts ex_tmpl 2 = Inl ValueError"
  by (simp add: refine_def fine_grid_def linspace_def upt15 ex_cut_zchi2_def ex_cut_redshifts_def
        ex_env_cut_def Let_def)

lemma closer_cut: "closer ex_env_cut (1 / 500) 0"
  by (simp add: closer_def get_dv_def fdiv_def speed_of_light_def ex_env_cut_def ex_env_def Let_def)

lemma too_close_cut: "too_close ex_env_cut (ex_cut_redshifts ! 2) [ex_cut_r]"
  using closer_cut by (simp add: too_close_iff ex_cut_redshifts_def ex_cut_r_def)

lemma fitz_loop_cut:
  "fitz_loop ex_env_cut ex_cut_zchi2 ex_cut_redshifts ex_tmpl 3 None [0, 2] [] = Inr [ex_cut_r]"
proof -
  have e: "\<not> too_close ex_env_cut x []" for x by (simp add: too_close_def)
  show ?thesis by (simp add: length_ex_cut refine_cut_0 too_close_cut e)
qed

lemma fitz_cut:
  "fitz ex_env_cut ex_store ex_cut_zchi2 ex_cut_redshifts [ex_spectrum] ex_tmpl 3 None
   = Inr ex_cut_table"
proof -
  have s: "spectral_data ex_env_cut = Inr ()" by (simp add: ex_env_cut_def ex_env_def)
  have a: "argsort ex_env_cut [res_chi2 ex_cut_r] = [0]"
    by (simp add: argsort_ex upt_rec)
  have t: "to_table [ex_cut_r \<lparr>res_npixels := 3\<rparr>] = Inr ex_cut_table"
    by (simp add: to_table_def vstack_def ex_cut_table_def) (simp add: ex_cut_r_def)
  show ?thesis
    by (simp add: fitz_def length_ex_cut find_minima_cut fitz_loop_cut s count_npixels_before a t
          Let_def del: fitz_loop.simps)
qed

subsection \<open>fitz: when the collaborators raise nothing\<close>

lemma or_keeps: "w AND b = (b::nat) \<Longrightarrow> (w OR x) AND b = b"
proof -
  assume a: "w AND b = b"
  have "\<And>k. bit b k \<Longrightarrow> bit w k" using a by (metis bit_and_iff)
  then show ?thesis by (auto simp: bit_eq_iff bit_and_iff bit_or_iff)
qed






lemma edge_policy_ok:
  "2 \<le> length rs \<Longrightarrow> \<exists>r. edge_policy E rs zz zzchi2 zmin sigma chi2min zwarn coeff = Inr r"
  by (simp add: edge_policy_def Let_def)

lemma edge_policy_keeps:
  assumes "edge_policy E rs zz zzchi2 zmin sigma chi2min zwarn coeff = Inr r"
  shows "res_coeff r = coeff \<and> (zwarn AND b = b \<longrightarrow> res_zwarn r AND b = b)"
  using assms
  by (auto simp: edge_policy_def Let_def or_keeps split: if_splits)







subsection \<open>fitz: the order and the size of the result\<close>

text \<open>
  C6. Whenever \<open>fitz\<close> returns, the column \<open>chi2\<close> of its table is in non-decreasing
  order: each entry is at most the next one.
\<close>

theorem fitz_sorted_by_chi2:
  assumes "fitz E h zc rs sp t n arch = Inr tab"
  shows "sorted (tab_chi2 tab)
     \<and> (\<forall>i. Suc i < length (tab_chi2 tab) \<longrightarrow> tab_chi2 tab ! i \<le> tab_chi2 tab ! Suc i)"
proof -
  obtain results :: "result list" and p
    where "sorts (map res_chi2 results) p" "tab_chi2 tab = map (\<lambda>i. res_chi2 (results ! i)) p"
    using fitz_columns[OF assms] by blast
  then have s: "sorted (tab_chi2 tab)" using sorts_chi2 by simp
  then show ?thesis by (auto simp: sorted_iff_nth_Suc)
qed

theorem fitz_sorted_by_chi2_witness:
  "fitz ex_env_two ex_store ex_two_zchi2 ex_two_redshifts [ex_spectrum] ex_tmpl 3 None
     = Inr ex_two_table
   \<and> sorted (tab_chi2 ex_two_table) \<and> tab_chi2 ex_two_table = [1, 2]
   \<and> tab_chi2 ex_two_table ! 0 \<le> tab_chi2 ex_two_table ! Suc 0"
  using fitz_sorted_by_chi2 [OF fitz_two] fitz_two by (simp add: ex_two_table_def)

text \<open>
  C7. Whenever \<open>fitz\<close> returns, its table has at least one row (every column has as
  many rows as \<open>z\<close>). When the loop over the candidates ends with no result, \<open>fitz\<close>
  raises AssertionError.
\<close>

theorem fitz_never_empty:
  "(fitz E h zc rs sp t n arch = Inr tab \<longrightarrow>
      tab_z tab \<noteq> [] \<and> length (tab_chi2 tab) = length (tab_z tab)
        \<and> length (tab_coeff tab) = length (tab_z tab))
   \<and> (length zc' = length rs' \<and> \<not> (arch' \<noteq> None \<and> sp' = []) \<and> spectral_data E' = Inr u
        \<and> find_minima E' zc' = Inr cands \<and> fitz_loop E' zc' rs' t' n' arch' cands [] = Inr []
      \<longrightarrow> fitz E' h' zc' rs' sp' t' n' arch' = Inl AssertionError)"
proof (intro conjI impI)
  assume a: "fitz E h zc rs sp t n arch = Inr tab"
  obtain results :: "result list" and p where r: "results \<noteq> []"
      "tab_z tab = map (\<lambda>i. res_z (results ! i)) p"
      "tab_chi2 tab = map (\<lambda>i. res_chi2 (results ! i)) p"
      "tab_coeff tab = map (\<lambda>i. res_coeff (results ! i)) p"
      and s: "sorts (map res_chi2 results) p"
    using fitz_columns[OF a] by blast
  have "length (tab_z tab) = length results" using r(2) sorts_length[OF s] by simp
  then show "tab_z tab \<noteq> []" using r(1) by auto
  show "length (tab_chi2 tab) = length (tab_z tab)"
    and "length (tab_coeff tab) = length (tab_z tab)" using r by simp_all
next
  assume "length zc' = length rs' \<and> \<not> (arch' \<noteq> None \<and> sp' = []) \<and> spectral_data E' = Inr u
        \<and> find_minima E' zc' = Inr cands \<and> fitz_loop E' zc' rs' t' n' arch' cands [] = Inr []"
  then show "fitz E' h' zc' rs' sp' t' n' arch' = Inl AssertionError"
    by (auto simp: fitz_def Let_def argsort_eq_Nil)
qed

theorem fitz_never_empty_witness:
  "fitz ex_env (ex_store (2 := [0, 2, 4])) [2, 5, 10] [1, 2, 3] [ex_spectrum] ex_tmpl 3 None
     = Inr ex_edge_table
   \<and> tab_z ex_edge_table \<noteq> []
   \<and> length (tab_chi2 ex_edge_table) = length (tab_z ex_edge_table)
   \<and> fitz_loop ex_env [2, 5, 10] [1, 2, 3] ex_tmpl 0 None [0] [] = Inr []
   \<and> fitz ex_env ex_store [2, 5, 10] [1, 2, 3] [ex_spectrum] ex_tmpl 0 None
       = Inl AssertionError"
proof -
  have l: "fitz_loop ex_env [2, 5, 10] [1, 2, 3] ex_tmpl 0 None [0] [] = Inr []" by simp
  have s: "spectral_data ex_env = Inr ()" by (simp add: ex_env_def)
  have n: "\<not> (None \<noteq> (None :: archetype option) \<and> [ex_spectrum] = [])" by simp
  have len: "length [2, 5, 10 :: real] = length [1, 2, 3 :: real]" by simp
  show ?thesis
    using fitz_never_empty [of ex_env "ex_store (2 := [0, 2, 4])" "[2, 5, 10]" "[1, 2, 3]"
        "[ex_spectrum]" ex_tmpl 3 None ex_edge_table
        "[2, 5, 10]" "[1, 2, 3]" None "[ex_spectrum]" ex_env "()" "[0]" ex_tmpl 0 ex_store]
      fitz_edge l s n len find_minima_edge
    by (simp del: fitz_loop.simps)
qed



subsection \<open>fitz: the velocity separation of the results\<close>

text \<open>
  C3, as stated, fails. For the curve with two wells \<open>fitz\<close> returns the redshifts 0 and
  0.00334. The second was accepted against the first as reference, 1001.3 km/s away; with
  the second as reference the first is 997.97 km/s away, less than the 1000 km/s of
  \<open>max_velo_diff\<close>.
\<close>

theorem fitz_separation_one_sided:
  "fitz ex_env_two ex_store ex_two_zchi2 ex_two_redshifts [ex_spectrum] ex_tmpl 3 None
     = Inr ex_two_table
   \<and> tab_z ex_two_table = [0, 167 / 50000]
   \<and> get_dv (167 / 50000) 0 = Finite (25032670243 / 25000000)
   \<and> get_dv 0 (167 / 50000) = Finite (- (25032670243 / 25083500))
   \<and> \<bar>- (25032670243 / 25083500 :: real)\<bar> < max_velo_diff ex_env_two
   \<and> \<not> far ex_env_two 0 (167 / 50000)"
  using fitz_two far_two(2) get_dv_two
  by (simp add: ex_two_table_def ex_env_two_def ex_env_def)

text \<open>
  C3, amended. Whenever \<open>fitz\<close> returns, the redshifts of its table can be put in an
  order (the order of acceptance) in which each one is at least the minimum velocity
  separation away from every earlier one, the earlier one being the reference; so of any
  two rows of the table, one is that far from the other taken as reference. The one
  exception is two redshifts that are both \<open>-1\<close>, whose velocity is NaN and below no
  threshold. In the loop, a candidate whose redshift in the scan is closer than the
  minimum separation to the redshift of a result held, the latter as reference, is skipped
  without being refined; so is a candidate whose refined redshift is that close to one;
  a candidate that passes both tests is appended to the results.
\<close>

theorem fitz_velocity_separation:
  "(fitz E h zc rs sp t n arch = Inr tab \<longrightarrow>
      (\<exists>zs. mset zs = mset (tab_z tab)
          \<and> sorted_wrt (\<lambda>zref z. far E z zref \<or> (z = - 1 \<and> zref = - 1)) zs)
      \<and> (\<forall>i j. i < j \<and> j < length (tab_z tab) \<longrightarrow>
            far E (tab_z tab ! i) (tab_z tab ! j) \<or> far E (tab_z tab ! j) (tab_z tab ! i)
            \<or> (tab_z tab ! i = - 1 \<and> tab_z tab ! j = - 1)))
   \<and> (too_close E' z' results
        \<longleftrightarrow> (\<exists>q \<in> set results. \<not> far E' z' (res_z q) \<and> \<not> (z' = - 1 \<and> res_z q = - 1)))
   \<and> (int (length results) \<noteq> n' \<and> imin < length rs' \<and> too_close E' (rs' ! imin) results \<longrightarrow>
        fitz_loop E' zc' rs' t' n' arch' (imin # rest) results
          = fitz_loop E' zc' rs' t' n' arch' rest results)
   \<and> (int (length results) \<noteq> n' \<and> imin < length rs' \<and> refine E' zc' rs' t' imin = Inr r
        \<and> too_close E' (res_z r) results \<longrightarrow>
        fitz_loop E' zc' rs' t' n' arch' (imin # rest) results
          = fitz_loop E' zc' rs' t' n' arch' rest results)
   \<and> (int (length results) \<noteq> n' \<and> imin < length rs' \<and> \<not> too_close E' (rs' ! imin) results
        \<and> refine E' zc' rs' t' imin = Inr r \<and> \<not> too_close E' (res_z r) results \<longrightarrow>
        fitz_loop E' zc' rs' t' n' None (imin # rest) results
          = fitz_loop E' zc' rs' t' n' None rest (results @ [r]))"
proof (intro conjI impI)
  assume a: "fitz E h zc rs sp t n arch = Inr tab"
  obtain cands and acc :: "result list" and p
    where l: "fitz_loop E zc rs t n arch cands [] = Inr acc"
    and s: "sorts (map res_chi2 acc) p"
    and z: "tab_z tab = map (\<lambda>i. res_z (acc ! i)) p"
    using fitz_columns[OF a] by blast
  let ?zs = "map res_z acc"
  let ?F = "\<lambda>zref z. far E z zref \<or> (z = - 1 \<and> zref = - 1)"
  let ?S = "\<lambda>a b. far E a b \<or> far E b a \<or> (a = - 1 \<and> b = - 1)"
  have pm: "mset p = mset [0..<length ?zs]" using sorts_mset[OF s] by simp
  have pr: "\<forall>i \<in> set p. i < length ?zs" using sorts_set[OF s] by simp
  have z': "tab_z tab = map (\<lambda>i. ?zs ! i) p" unfolding z using pr by simp
  have "sorted_wrt (\<lambda>zref z. \<not> closer E z zref) ?zs" using loop_separated[OF l] by simp
  then have acc: "sorted_wrt ?F ?zs" by (simp add: not_closer_iff)
  have m: "mset ?zs = mset (tab_z tab)" unfolding z' using map_nth_perm[OF pm] by simp
  show "\<exists>zs. mset zs = mset (tab_z tab) \<and> sorted_wrt ?F zs" using acc m by blast
  have "sorted_wrt ?S ?zs" using acc by (rule sorted_wrt_mono_rel[rotated]) blast
  then have "sorted_wrt ?S (map (\<lambda>i. ?zs ! i) p)"
    by (rule perm_sym[OF sorts_distinct[OF s] pr]) blast
  then show "\<forall>i j. i < j \<and> j < length (tab_z tab) \<longrightarrow>
            far E (tab_z tab ! i) (tab_z tab ! j) \<or> far E (tab_z tab ! j) (tab_z tab ! i)
            \<or> (tab_z tab ! i = - 1 \<and> tab_z tab ! j = - 1)"
    unfolding z' by (auto simp: sorted_wrt_iff_nth_less)
next
  show "too_close E' z' results
        \<longleftrightarrow> (\<exists>q \<in> set results. \<not> far E' z' (res_z q) \<and> \<not> (z' = - 1 \<and> res_z q = - 1))"
    using not_closer_iff[of E' z'] by (auto simp: too_close_iff)
next
  assume "int (length results) \<noteq> n' \<and> imin < length rs' \<and> too_close E' (rs' ! imin) results"
  then show "fitz_loop E' zc' rs' t' n' arch' (imin # rest) results
          = fitz_loop E' zc' rs' t' n' arch' rest results"
    by simp
next
  assume "int (length results) \<noteq> n' \<and> imin < length rs' \<and> refine E' zc' rs' t' imin = Inr r
        \<and> too_close E' (res_z r) results"
  then show "fitz_loop E' zc' rs' t' n' arch' (imin # rest) results
          = fitz_loop E' zc' rs' t' n' arch' rest results"
    by simp
next
  assume "int (length results) \<noteq> n' \<and> imin < length rs' \<and> \<not> too_close E' (rs' ! imin) results
        \<and> refine E' zc' rs' t' imin = Inr r \<and> \<not> too_close E' (res_z r) results"
  then show "fitz_loop E' zc' rs' t' n' None (imin # rest) results
          = fitz_loop E' zc' rs' t' n' None rest (results @ [r])"
    by simp
qed

theorem fitz_velocity_separation_witness:
  "fitz ex_env_two ex_store ex_two_zchi2 ex_two_redshifts [ex_spectrum] ex_tmpl 3 None
     = Inr ex_two_table
   \<and> (\<exists>zs. mset zs = mset (tab_z ex_two_table)
          \<and> sorted_wrt (\<lambda>zref z. far ex_env_two z zref \<or> (z = - 1 \<and> zref = - 1)) zs)
   \<and> (far ex_env_two (tab_z ex_two_table ! 0) (tab_z ex_two_table ! 1)
        \<or> far ex_env_two (tab_z ex_two_table ! 1) (tab_z ex_two_table ! 0)
        \<or> (tab_z ex_two_table ! 0 = - 1 \<and> tab_z ex_two_table ! 1 = - 1))
   \<and> too_close ex_env_cut (ex_cut_redshifts ! 2) [ex_cut_r]
   \<and> refine ex_env_cut ex_cut_zchi2 ex_cut_redshifts ex_tmpl 2 = Inl ValueError
   \<and> fitz_loop ex_env_cut ex_cut_zchi2 ex_cut_redshifts ex_tmpl 3 None [2] [ex_cut_r]
       = Inr [ex_cut_r]
   \<and> fitz ex_env_cut ex_store ex_cut_zchi2 ex_cut_redshifts [ex_spectrum] ex_tmpl 3 None
       = Inr ex_cut_table
   \<and> \<not> too_close ex_env (ex_near_redshifts ! 1) [ex_near_held]
   \<and> refine ex_env ex_near_zchi2 ex_near_redshifts ex_tmpl 1 = Inr ex_near_refined
   \<and> too_close ex_env (res_z ex_near_refined) [ex_near_held]
   \<and> fitz_loop ex_env ex_near_zchi2 ex_near_redshifts ex_tmpl 3 None [1] [ex_near_held]
       = Inr [ex_near_held]
   \<and> \<not> too_close ex_env_two (ex_two_redshifts ! 2) [ex_two_r1]
   \<and> \<not> too_close ex_env_two (res_z ex_two_r2) [ex_two_r1]
   \<and> fitz_loop ex_env_two ex_two_zchi2 ex_two_redshifts ex_tmpl 3 None [2] [ex_two_r1]
       = Inr [ex_two_r1, ex_two_r2]"
proof -
  have l: "(0::nat) < 1 \<and> 1 < length (tab_z ex_two_table)" by (simp add: ex_two_table_def)
  have n1: "int (length [ex_cut_r]) \<noteq> 3" "(2::nat) < length ex_cut_redshifts"
    by (simp_all add: length_ex_cut)
  have n2: "int (length [ex_near_held]) \<noteq> 3" "(1::nat) < length ex_near_redshifts"
    by (simp_all add: length_ex_near)
  have n3: "int (length [ex_two_r1]) \<noteq> 3" "(2::nat) < length ex_two_redshifts"
    by (simp_all add: length_ex_two)
  have c2: "\<not> too_close ex_env (ex_near_redshifts ! 1) [ex_near_held]"
    using closer_near(1) by (simp add: too_close_iff ex_near_redshifts_def ex_near_held_def)
  have c2': "too_close ex_env (res_z ex_near_refined) [ex_near_held]"
    using closer_near(2) by (simp add: too_close_iff ex_near_refined_def ex_near_held_def)
  have c3: "\<not> too_close ex_env_two (ex_two_redshifts ! 2) [ex_two_r1]"
    "\<not> too_close ex_env_two (res_z ex_two_r2) [ex_two_r1]"
    using closer_two(1)
    by (simp_all add: too_close_iff ex_two_redshifts_def ex_two_r1_def ex_two_r2_def)
  have e: "fitz_loop E zc rs t 3 None [] acc = Inr acc" for E zc rs t acc by simp
  note t1 = fitz_velocity_separation [of ex_env_two ex_store ex_two_zchi2 ex_two_redshifts
      "[ex_spectrum]" ex_tmpl 3 None ex_two_table
      ex_env_cut "ex_cut_redshifts ! 2" "[ex_cut_r]" 3 2 ex_cut_redshifts ex_cut_zchi2 ex_tmpl
      None "[]" ex_near_refined]
  note t2 = fitz_velocity_separation [of ex_env_two ex_store ex_two_zchi2 ex_two_redshifts
      "[ex_spectrum]" ex_tmpl 3 None ex_two_table
      ex_env "ex_near_redshifts ! 1" "[ex_near_held]" 3 1 ex_near_redshifts ex_near_zchi2 ex_tmpl
      None "[]" ex_near_refined]
  note t3 = fitz_velocity_separation [of ex_env_two ex_store ex_two_zchi2 ex_two_redshifts
      "[ex_spectrum]" ex_tmpl 3 None ex_two_table
      ex_env_two "ex_two_redshifts ! 2" "[ex_two_r1]" 3 2 ex_two_redshifts ex_two_zchi2 ex_tmpl
      None "[]" ex_two_r2]
  have k1: "fitz_loop ex_env_cut ex_cut_zchi2 ex_cut_redshifts ex_tmpl 3 None [2] [ex_cut_r]
       = Inr [ex_cut_r]"
    using t1 n1 too_close_cut e by presburger
  have k2: "fitz_loop ex_env ex_near_zchi2 ex_near_redshifts ex_tmpl 3 None [1] [ex_near_held]
       = Inr [ex_near_held]"
    using t2 n2 refine_near c2' e by presburger
  have k3: "fitz_loop ex_env_two ex_two_zchi2 ex_two_redshifts ex_tmpl 3 None [2] [ex_two_r1]
       = Inr [ex_two_r1, ex_two_r2]"
    using t3 n3 refine_two_2 c3 e[of _ _ _ _ "[ex_two_r1] @ [ex_two_r2]"] by simp
  have k0: "(\<exists>zs. mset zs = mset (tab_z ex_two_table)
          \<and> sorted_wrt (\<lambda>zref z. far ex_env_two z zref \<or> (z = - 1 \<and> zref = - 1)) zs)
   \<and> (far ex_env_two (tab_z ex_two_table ! 0) (tab_z ex_two_table ! 1)
        \<or> far ex_env_two (tab_z ex_two_table ! 1) (tab_z ex_two_table ! 0)
        \<or> (tab_z ex_two_table ! 0 = - 1 \<and> tab_z ex_two_table ! 1 = - 1))"
    using t1 fitz_two l by blast
  show ?thesis
    using k0 k1 k2 k3 fitz_two too_close_cut refine_cut_2 fitz_cut c2 refine_near c2' c3
    by (simp del: fitz_loop.simps)
qed

subsection \<open>fitz: a fitted redshift outside the scan\<close>

text \<open>
  On a scan in ascending order a redshift outside the scan is outside the fine samples
  too, and beyond the second or the last but one redshift of the scan: the statements after
  the \<^verbatim>\<open>try\<close> set both flags.
\<close>

lemma edge_policy_outside_scan:
  assumes "sorted rs" "2 \<le> length rs" "zz ! 0 = rs ! ilo" "last zz = rs ! ihi"
    "ilo < length rs" "ihi < length rs" "zmin < rs ! 0 \<or> last rs < zmin"
  shows "\<exists>r. edge_policy E rs zz zzchi2 zmin sigma chi2min zwarn coeff = Inr r
     \<and> res_coeff r = coeff
     \<and> res_zwarn r AND Z_FITLIMIT E = Z_FITLIMIT E
     \<and> res_zwarn r AND BAD_MINFIT E = BAD_MINFIT E"
proof -
  have n: "rs \<noteq> []" using assms(2) by auto
  have l: "last rs = rs ! (length rs - 1)" using n by (rule last_conv_nth)
  have lo: "rs ! 0 \<le> rs ! ilo" "rs ! 0 \<le> rs ! 1"
    using assms(1,2,5) by (auto intro!: sorted_nth_mono)
  have hi: "rs ! ihi \<le> last rs" "rs ! (length rs - 2) \<le> last rs"
    unfolding l using assms(1,2,6) by (auto intro!: sorted_nth_mono)
  have o: "zmin < zz ! 0 \<or> zmin > last zz" using assms(3,4,7) lo(1) hi(1) by auto
  have f: "zmin < rs ! 1 \<or> zmin > rs ! (length rs - 2)" using assms(7) lo(2) hi(2) by auto
  show ?thesis
    using o f assms(2) by (simp add: edge_policy_def Let_def or_keeps or_and_self)
qed

lemma fine_grid_ends:
  "fine_grid zc rs imin ! 0 = rs ! max 0 (imin - 1)"
  "last (fine_grid zc rs imin) = rs ! min (imin + 1) (length zc - 1)"
  by (simp_all add: fine_grid_def Let_def linspace_first linspace_last)

text \<open>
  C8, as stated, fails. For the scan that falls towards its lower edge the fitted redshift
  is 0, below the scan \<open>[1, 3]\<close>. The evaluation at 0 is made all the same and, as it
  raises nothing, its coefficient 1 is the one in the table: not the zero coefficient.
\<close>

theorem eval_zmin_outside_scan_evaluated:
  "parabola_fit ex_env (fine_grid [2, 5, 10] [1, 2, 3] 0)
       (map (\<lambda>z. z ^ 2 + 1) (fine_grid [2, 5, 10] [1, 2, 3] 0)) = Inr (0, 1, 1, 1024)
   \<and> (0 :: real) < [1, 2, 3] ! 0
   \<and> zchi2_at ex_env 0 = Inr (1, [1])
   \<and> eval_zmin ex_env [1, 2, 3] ex_tmpl 0 1024 = Inr ([1], 1024)
   \<and> fitz ex_env (ex_store (2 := [0, 2, 4])) [2, 5, 10] [1, 2, 3] [ex_spectrum] ex_tmpl 3 None
       = Inr ex_edge_table
   \<and> tab_coeff ex_edge_table = [[1]]
   \<and> tab_coeff ex_edge_table \<noteq> [replicate (nbasis ex_tmpl) 0]"
  using fitz_edge parabola_fit_edge eval_zmin_edge
  by (simp add: fine_grid_edge ex_edge_table_def ex_tmpl_def ex_env_def)

text \<open>
  C8, amended. The evaluation at the fitted redshift \<open>zmin\<close> is always attempted. When
  it raises ValueError and \<open>zmin\<close> is outside the scan, the coefficients are \<open>nbasis\<close>
  zeros and both the out-of-range and the bad-fit flag are set; the candidate is then
  carried on to a result that keeps these coefficients and flags, and nothing is raised.
  A ValueError with \<open>zmin\<close> inside the scan, and any other exception, goes to the caller.
  When the evaluation returns, its coefficients are kept; and on a scan in ascending order
  with \<open>zmin\<close> outside it, the result carries both flags then as well.
\<close>

theorem eval_zmin_out_of_range:
  "(zchi2_at E zmin = Inl ValueError \<and> (zmin < rs ! 0 \<or> last rs < zmin) \<longrightarrow>
      (\<exists>w. eval_zmin E rs t zmin zwarn = Inr (replicate (nbasis t) 0, w)
          \<and> w AND Z_FITLIMIT E = Z_FITLIMIT E \<and> w AND BAD_MINFIT E = BAD_MINFIT E))
   \<and> (zchi2_at E z1 = Inl e \<and> \<not> (e = ValueError \<and> (z1 < rs1 ! 0 \<or> last rs1 < z1)) \<longrightarrow>
        eval_zmin E rs1 t z1 zwarn = Inl e)
   \<and> (zchi2_at E z2 = Inr (c, co) \<longrightarrow> eval_zmin E rs t z2 zwarn = Inr (co, zwarn))
   \<and> (imin < length zc \<and> length zc = length rs \<and> 2 \<le> length rs
        \<and> calc_batch (zchi2_at E) (fine_grid zc rs imin) = Inr (zzchi2, zzcoeff)
        \<and> parabola_fit E (fine_grid zc rs imin) zzchi2 = Inr (zmin, sigma, chi2min, zw)
        \<and> zchi2_at E zmin = Inl ValueError \<and> (zmin < rs ! 0 \<or> last rs < zmin) \<longrightarrow>
        (\<exists>r. refine E zc rs t imin = Inr r \<and> res_coeff r = replicate (nbasis t) 0
            \<and> res_zwarn r AND Z_FITLIMIT E = Z_FITLIMIT E
            \<and> res_zwarn r AND BAD_MINFIT E = BAD_MINFIT E))
   \<and> (imin' < length zc' \<and> length zc' = length rs' \<and> 2 \<le> length rs' \<and> sorted rs'
        \<and> calc_batch (zchi2_at E') (fine_grid zc' rs' imin') = Inr (zzchi2', zzcoeff')
        \<and> parabola_fit E' (fine_grid zc' rs' imin') zzchi2' = Inr (zmin', sigma', chi2min', zw')
        \<and> zchi2_at E' zmin' = Inr (c', co') \<and> (zmin' < rs' ! 0 \<or> last rs' < zmin') \<longrightarrow>
        (\<exists>r. refine E' zc' rs' t' imin' = Inr r \<and> res_coeff r = co'
            \<and> res_zwarn r AND Z_FITLIMIT E' = Z_FITLIMIT E'
            \<and> res_zwarn r AND BAD_MINFIT E' = BAD_MINFIT E'))"
proof (intro conjI impI)
  assume "zchi2_at E zmin = Inl ValueError \<and> (zmin < rs ! 0 \<or> last rs < zmin)"
  then show "\<exists>w. eval_zmin E rs t zmin zwarn = Inr (replicate (nbasis t) 0, w)
          \<and> w AND Z_FITLIMIT E = Z_FITLIMIT E \<and> w AND BAD_MINFIT E = BAD_MINFIT E"
    by (auto simp: eval_zmin_def or_keeps or_and_self)
next
  assume "zchi2_at E z1 = Inl e \<and> \<not> (e = ValueError \<and> (z1 < rs1 ! 0 \<or> last rs1 < z1))"
  then show "eval_zmin E rs1 t z1 zwarn = Inl e" by (auto simp: eval_zmin_def)
next
  assume "zchi2_at E z2 = Inr (c, co)"
  then show "eval_zmin E rs t z2 zwarn = Inr (co, zwarn)" by (simp add: eval_zmin_def)
next
  assume a: "imin < length zc \<and> length zc = length rs \<and> 2 \<le> length rs
        \<and> calc_batch (zchi2_at E) (fine_grid zc rs imin) = Inr (zzchi2, zzcoeff)
        \<and> parabola_fit E (fine_grid zc rs imin) zzchi2 = Inr (zmin, sigma, chi2min, zw)
        \<and> zchi2_at E zmin = Inl ValueError \<and> (zmin < rs ! 0 \<or> last rs < zmin)"
  let ?w = "(zw OR Z_FITLIMIT E) OR BAD_MINFIT E"
  have e: "eval_zmin E rs t zmin zw = Inr (replicate (nbasis t) 0, ?w)"
    using a by (auto simp: eval_zmin_def)
  have g: "\<not> length rs \<le> min (imin + 1) (length zc - 1)" using a by (auto simp: min_def)
  obtain r where r: "edge_policy E rs (fine_grid zc rs imin) zzchi2 zmin sigma chi2min ?w
       (replicate (nbasis t) 0) = Inr r"
    using edge_policy_ok[of rs] a by blast
  have rf: "refine E zc rs t imin = Inr r" using a g e r by (simp add: refine_def Let_def)
  have f1: "?w AND Z_FITLIMIT E = Z_FITLIMIT E" by (simp add: or_keeps or_and_self)
  have f2: "?w AND BAD_MINFIT E = BAD_MINFIT E" by (simp add: or_and_self)
  show "\<exists>r. refine E zc rs t imin = Inr r \<and> res_coeff r = replicate (nbasis t) 0
            \<and> res_zwarn r AND Z_FITLIMIT E = Z_FITLIMIT E
            \<and> res_zwarn r AND BAD_MINFIT E = BAD_MINFIT E"
    using rf edge_policy_keeps[OF r] f1 f2 by blast
next
  assume a: "imin' < length zc' \<and> length zc' = length rs' \<and> 2 \<le> length rs' \<and> sorted rs'
        \<and> calc_batch (zchi2_at E') (fine_grid zc' rs' imin') = Inr (zzchi2', zzcoeff')
        \<and> parabola_fit E' (fine_grid zc' rs' imin') zzchi2' = Inr (zmin', sigma', chi2min', zw')
        \<and> zchi2_at E' zmin' = Inr (c', co') \<and> (zmin' < rs' ! 0 \<or> last rs' < zmin')"
  have e: "eval_zmin E' rs' t' zmin' zw' = Inr (co', zw')"
    using a by (simp add: eval_zmin_def)
  have g: "\<not> length rs' \<le> min (imin' + 1) (length zc' - 1)" using a by (auto simp: min_def)
  have lo: "max 0 (imin' - 1) < length rs'" and hi: "min (imin' + 1) (length zc' - 1) < length rs'"
    using a by auto
  have "\<exists>r. edge_policy E' rs' (fine_grid zc' rs' imin') zzchi2' zmin' sigma' chi2min' zw' co'
          = Inr r
      \<and> res_coeff r = co'
      \<and> res_zwarn r AND Z_FITLIMIT E' = Z_FITLIMIT E'
      \<and> res_zwarn r AND BAD_MINFIT E' = BAD_MINFIT E'"
    by (rule edge_policy_outside_scan[where ilo = "max 0 (imin' - 1)"
          and ihi = "min (imin' + 1) (length zc' - 1)"])
       (use a lo hi in \<open>simp_all add: fine_grid_ends\<close>)
  then obtain r where r: "edge_policy E' rs' (fine_grid zc' rs' imin') zzchi2' zmin' sigma' chi2min'
        zw' co' = Inr r" "res_coeff r = co'" "res_zwarn r AND Z_FITLIMIT E' = Z_FITLIMIT E'"
      "res_zwarn r AND BAD_MINFIT E' = BAD_MINFIT E'"
    by blast
  have "refine E' zc' rs' t' imin' = Inr r" using a g e r(1) by (simp add: refine_def Let_def)
  then show "\<exists>r. refine E' zc' rs' t' imin' = Inr r \<and> res_coeff r = co'
            \<and> res_zwarn r AND Z_FITLIMIT E' = Z_FITLIMIT E'
            \<and> res_zwarn r AND BAD_MINFIT E' = BAD_MINFIT E'"
    using r by blast
qed

theorem eval_zmin_out_of_range_witness:
  "zchi2_at ex_env_limited 0 = Inl ValueError \<and> (0 :: real) < [1, 2, 3] ! 0
   \<and> (\<exists>w. eval_zmin ex_env_limited [1, 2, 3] ex_tmpl 0 1024 = Inr (replicate (nbasis ex_tmpl) 0, w)
          \<and> w AND Z_FITLIMIT ex_env_limited = Z_FITLIMIT ex_env_limited
          \<and> w AND BAD_MINFIT ex_env_limited = BAD_MINFIT ex_env_limited)
   \<and> zchi2_at ex_env_limited (1 / 4) = Inl ValueError
   \<and> eval_zmin ex_env_limited [0, 1] ex_tmpl (1 / 4) 1024 = Inl ValueError
   \<and> zchi2_at ex_env_limited 1 = Inr (2, [1])
   \<and> eval_zmin ex_env_limited [1, 2, 3] ex_tmpl 1 1024 = Inr ([1], 1024)
   \<and> (\<exists>r. refine ex_env_limited [2, 5, 10] [1, 2, 3] ex_tmpl 0 = Inr r
          \<and> res_coeff r = replicate (nbasis ex_tmpl) 0
          \<and> res_zwarn r AND Z_FITLIMIT ex_env_limited = Z_FITLIMIT ex_env_limited
          \<and> res_zwarn r AND BAD_MINFIT ex_env_limited = BAD_MINFIT ex_env_limited)
   \<and> sorted [1, 2, 3 :: real] \<and> zchi2_at ex_env 0 = Inr (1, [1])
   \<and> (\<exists>r. refine ex_env [2, 5, 10] [1, 2, 3] ex_tmpl 0 = Inr r
          \<and> res_coeff r = [1] \<and> res_zwarn r = 1056
          \<and> res_zwarn r AND Z_FITLIMIT ex_env = Z_FITLIMIT ex_env
          \<and> res_zwarn r AND BAD_MINFIT ex_env = BAD_MINFIT ex_env)"
proof -
  have v0: "zchi2_at ex_env_limited 0 = Inl ValueError" by (simp add: ex_env_limited_def)
  have v1: "zchi2_at ex_env_limited (1 / 4) = Inl ValueError" by (simp add: ex_env_limited_def)
  have v2: "zchi2_at ex_env_limited 1 = Inr (2, [1])" by (simp add: ex_env_limited_def)
  have v3: "zchi2_at ex_env 0 = Inr (1, [1])" by (simp add: ex_env_def)
  have o: "(0 :: real) < [1, 2, 3] ! 0 \<or> last [1, 2, 3] < (0 :: real)" by simp
  have i: "\<not> (ValueError = ValueError \<and> ((1 / 4 :: real) < [0, 1] ! 0 \<or> last [0, 1] < (1 / 4 :: real)))"
    by simp
  have len: "(0::nat) < length [2, 5, 10 :: real]" "length [2, 5, 10 :: real] = length [1, 2, 3 :: real]"
    "2 \<le> length [1, 2, 3 :: real]" "sorted [1, 2, 3 :: real]" by simp_all
  have b: "calc_batch (zchi2_at ex_env_limited) (fine_grid [2, 5, 10] [1, 2, 3] 0)
      = Inr (map (\<lambda>z. z ^ 2 + 1) (linspace 1 2 15), map (\<lambda>z. [1]) (linspace 1 2 15))"
    using calc_batch_limited by (simp add: fine_grid_edge)
  have p: "parabola_fit ex_env_limited (fine_grid [2, 5, 10] [1, 2, 3] 0)
      (map (\<lambda>z. z ^ 2 + 1) (linspace 1 2 15)) = Inr (0, 1, 1, 1024)"
    using parabola_fit_limited by (simp add: fine_grid_edge)
  have b': "calc_batch (zchi2_at ex_env) (fine_grid [2, 5, 10] [1, 2, 3] 0)
      = Inr (map (\<lambda>z. z ^ 2 + 1) (linspace 1 2 15), map (\<lambda>z. [1]) (linspace 1 2 15))"
    using calc_batch_ex by (simp add: fine_grid_edge)
  have p': "parabola_fit ex_env (fine_grid [2, 5, 10] [1, 2, 3] 0)
      (map (\<lambda>z. z ^ 2 + 1) (linspace 1 2 15)) = Inr (0, 1, 1, 1024)"
    using parabola_fit_edge by (simp add: fine_grid_edge)
  note t = eval_zmin_out_of_range [where E = ex_env_limited and zmin = 0 and rs = "[1, 2, 3]"
        and t = ex_tmpl and zwarn = 1024 and ?z1.0 = "1 / 4" and e = ValueError
        and ?rs1.0 = "[0, 1]" and ?z2.0 = 1 and c = 2 and co = "[1]" and imin = 0
        and zc = "[2, 5, 10]" and ?zzchi2.0 = "map (\<lambda>z. z ^ 2 + 1) (linspace 1 2 15)"
        and zzcoeff = "map (\<lambda>z. [1]) (linspace 1 2 15)" and sigma = 1 and chi2min = 1
        and zw = 1024 and imin' = 0 and zc' = "[2, 5, 10]" and rs' = "[1, 2, 3]"
        and E' = ex_env and zzchi2' = "map (\<lambda>z. z ^ 2 + 1) (linspace 1 2 15)"
        and zzcoeff' = "map (\<lambda>z. [1]) (linspace 1 2 15)" and zmin' = 0 and sigma' = 1
        and chi2min' = 1 and zw' = 1024 and c' = 1 and co' = "[1]" and t' = ex_tmpl]
  have w: "res_zwarn r = 1056" if "refine ex_env [2, 5, 10] [1, 2, 3] ex_tmpl 0 = Inr r" for r
    using that by (auto simp: refine_edge)
  show ?thesis
    using t v0 v1 v2 v3 o i len b p b' p' w
    by (simp del: fitz_loop.simps) blast
qed

subsection \<open>fitz: with an archetype set\<close>

lemma fitz_archetype_raises: "fitz E h zc rs sp t n (Some a) \<noteq> Inr tab"
proof
  assume a: "fitz E h zc rs sp t n (Some a) = Inr tab"
  obtain cands and results :: "result list"
    where "fitz_loop E zc rs t n (Some a) cands [] = Inr results" "results \<noteq> []"
    using fitz_InrD[OF a] by blast
  then show False using loop_archetype by blast
qed

text \<open>
  C1 fails on the program. The method takes seven arguments and \<open>fitz\<close> passes nine, so
  for an accepted minimum the call raises TypeError: here on the scan that falls towards
  its lower edge, where a call with seven arguments would have returned the archetype of
  least chi-squared with its coefficients and its subtype.
\<close>

theorem fitz_archetype_TypeError:
  "fitz ex_env (ex_store (2 := [0, 2, 4])) [2, 5, 10] [1, 2, 3] [ex_spectrum] ex_tmpl 3
       (Some ex_arch) = Inl TypeError
   \<and> call_get_best_archetype 9 ex_arch 1 = Inl TypeError
   \<and> call_get_best_archetype 7 ex_arch 1 = Inr (2, [1, 0, 0, 0], ''ELG'')"
proof -
  have s: "spectral_data ex_env = Inr ()" by (simp add: ex_env_def)
  have c9: "call_get_best_archetype 9 ex_arch z = Inl TypeError" for z
    by (simp add: call_get_best_archetype_def get_best_archetype_nparams_def)
  have l: "fitz_loop ex_env [2, 5, 10] [1, 2, 3] ex_tmpl 3 (Some ex_arch) [0] [] = Inl TypeError"
    by (simp add: refine_edge too_close_def c9)
  have f: "fitz ex_env (ex_store (2 := [0, 2, 4])) [2, 5, 10] [1, 2, 3] [ex_spectrum] ex_tmpl 3
       (Some ex_arch) = Inl TypeError"
    by (simp add: fitz_def find_minima_edge l s del: fitz_loop.simps)
  have c7: "call_get_best_archetype 7 ex_arch 1 = Inr (2, [1, 0, 0, 0], ''ELG'')"
    by (simp add: call_get_best_archetype_def get_best_archetype_nparams_def
          get_best_archetype_def ex_arch_def argmin_def upt_rec)
  show ?thesis using f c9 c7 by simp
qed

end
